theory Spec2Isabelle
  imports Main
begin

section \<open>JavaScript strings and values\<close>

text \<open>
  A JavaScript string is a sequence of UTF-16 code units; \<open>length\<close>, \<open>slice\<close> and
  \<open>indexOf\<close> count code units. A code unit is modelled as a natural number (below
  65536 in every string the program can meet; the theorems hold for all lists).
  \<open>lit\<close> turns an ASCII literal into its code units; the few characters of the
  source's literals that are outside ASCII are written by code point.
\<close>

type_synonym jsstring = "nat list"

definition lit :: "string \<Rightarrow> jsstring" where
  "lit s = map of_char s"

text \<open>The decimal form of a non-negative integer, as a template literal prints it.\<close>

fun digits :: "nat \<Rightarrow> jsstring" where
  "digits n = (if n < 10 then [48 + n] else digits (n div 10) @ [48 + n mod 10])"

definition int_toString :: "int \<Rightarrow> jsstring" where
  "int_toString i = (if i < 0 then 45 # digits (nat (- i)) else digits (nat i))"

text \<open>\<open>Array.prototype.join\<close> on strings.\<close>

fun join :: "jsstring \<Rightarrow> jsstring list \<Rightarrow> jsstring" where
  "join sep [] = []"
| "join sep [x] = x"
| "join sep (x # y # ys) = x @ sep @ join sep (y # ys)"

text \<open>
  \<open>String.prototype.trim\<close> removes white space and line terminators from both ends:
  TAB, LF, VT, FF, CR, SPACE, NBSP, U+1680, U+2000 to U+200A, U+2028, U+2029, U+202F,
  U+205F, U+3000 and U+FEFF.
\<close>

definition isWhiteSpace :: "nat \<Rightarrow> bool" where
  "isWhiteSpace c =
     ((9 \<le> c \<and> c \<le> 13) \<or> c = 32 \<or> c = 160 \<or> c = 5760 \<or> (8192 \<le> c \<and> c \<le> 8202) \<or>
      c = 8232 \<or> c = 8233 \<or> c = 8239 \<or> c = 8287 \<or> c = 12288 \<or> c = 65279)"

definition trim :: "jsstring \<Rightarrow> jsstring" where
  "trim s = rev (dropWhile isWhiteSpace (rev (dropWhile isWhiteSpace s)))"

text \<open>
  \<open>s.indexOf(c)\<close> for a one-character search string: the index of the first
  occurrence, or -1. \<open>s.slice(i)\<close> for \<open>i \<ge> 0\<close> drops the first \<open>i\<close> code units.
\<close>

fun indexOf :: "jsstring \<Rightarrow> nat \<Rightarrow> int" where
  "indexOf [] c = - 1"
| "indexOf (x # xs) c = (if x = c then 0 else (let i = indexOf xs c in if i < 0 then - 1 else i + 1))"

definition slice_from :: "jsstring \<Rightarrow> int \<Rightarrow> jsstring" where
  "slice_from s i = drop (nat i) s"

text \<open>
  The values the program handles: what \<open>JSON.parse\<close> returns, plus \<open>undefined\<close>.
  Numbers are kept abstract (type \<open>'n\<close>): the program never computes with a parsed
  number, it only tests its truthiness and prints it, and both are taken from the
  platform. An object is its list of properties, each key once.
\<close>

datatype 'n jsval =
    JUndefined
  | JNull
  | JBool bool
  | JNum 'n
  | JStr jsstring
  | JArr "'n jsval list"
  | JObj "(jsstring \<times> 'n jsval) list"

text \<open>A thrown error object: its \<open>name\<close> and its \<open>message\<close>.\<close>

record exn =
  exn_name :: jsstring
  exn_message :: jsstring

text \<open>\<open>new Error(m)\<close> for a string \<open>m\<close>.\<close>

definition new_Error :: "jsstring \<Rightarrow> exn" where
  "new_Error m = \<lparr>exn_name = lit ''Error'', exn_message = m\<rparr>"

text \<open>\<open>String(e)\<close> for an error object (\<open>Error.prototype.toString\<close>).\<close>

definition String_exn :: "exn \<Rightarrow> jsstring" where
  "String_exn e =
     (if exn_name e = [] then exn_message e
      else if exn_message e = [] then exn_name e
      else exn_name e @ lit '': '' @ exn_message e)"

section \<open>The platform\<close>

text \<open>
  Everything the program calls but does not define: \<open>JSON\<close>, number conversion, the
  wording of the engine's \<open>TypeError\<close> for a property read on \<open>null\<close> or
  \<open>undefined\<close> and for an object that has no primitive value, \<open>fetch\<close> (with the
  reading of the body by \<open>res.text()\<close>),
  \<open>FileReader.readAsDataURL\<close>, the clock, and the build-time endpoint configuration.
  \<open>'w\<close> is the state of the outside world (servers, file system, clock).
\<close>

record file_object =
  file_name :: jsstring
  file_type :: jsstring

record response =
  res_ok :: bool
  res_status :: nat
  res_text :: jsstring

record request =
  req_url :: jsstring
  req_method :: jsstring
  req_headers :: "(jsstring \<times> jsstring) list"
  req_body :: jsstring

text \<open>
  A call of \<open>fetch\<close> followed by \<open>res.text()\<close> either rejects (with the error object
  thrown) or yields a response whose body has been read in full.
\<close>

datatype fetch_outcome = Rejected exn | Responded response

record endpoints =
  upload :: "jsstring option"
  create :: "jsstring option"
  get :: "jsstring option"
  update :: "jsstring option"
  del :: "jsstring option"

record ('n, 'w) platform =
  JSON_parse :: "jsstring \<Rightarrow> 'n jsval option"
  JSON_stringify :: "'n jsval \<Rightarrow> jsstring"
  Number_truthy :: "'n \<Rightarrow> bool"
  Number_toString :: "'n \<Rightarrow> jsstring"
  nullish_read_message :: "'n jsval \<Rightarrow> jsstring \<Rightarrow> jsstring"
  not_primitive_message :: jsstring
  fetch :: "request \<Rightarrow> 'w \<Rightarrow> fetch_outcome \<times> 'w"
  readAsDataURL :: "file_object \<Rightarrow> 'w \<Rightarrow> jsstring option \<times> 'w"
  Date_toISOString :: "'w \<Rightarrow> jsstring"
  ENDPOINTS :: endpoints

text \<open>Truthiness and \<open>a || b\<close>.\<close>

fun truthy :: "('n, 'w) platform \<Rightarrow> 'n jsval \<Rightarrow> bool" where
  "truthy p JUndefined = False"
| "truthy p JNull = False"
| "truthy p (JBool b) = b"
| "truthy p (JNum n) = Number_truthy p n"
| "truthy p (JStr s) = (s \<noteq> [])"
| "truthy p (JArr vs) = True"
| "truthy p (JObj kvs) = True"

definition js_or :: "('n, 'w) platform \<Rightarrow> 'n jsval \<Rightarrow> 'n jsval \<Rightarrow> 'n jsval" where
  "js_or p a b = (if truthy p a then a else b)"

text \<open>
  \<open>ToString\<close>, which \<open>new Error(x)\<close> applies to \<open>x\<close>, can throw. A parsed object
  is a plain object whose own properties are never functions: when it has no own
  \<open>toString\<close> property the inherited one yields "[object Object]"; when it has
  one, that is skipped as not callable, the inherited \<open>valueOf\<close> (or an own one,
  skipped as well) yields no primitive, and a \<open>TypeError\<close> is thrown. An array is
  joined with commas, \<open>null\<close> and \<open>undefined\<close> elements as empty strings, the
  other elements converted from left to right; the first that throws ends the
  conversion.
\<close>

definition not_primitive :: "('n, 'w) platform \<Rightarrow> exn" where
  "not_primitive p = \<lparr>exn_name = lit ''TypeError'', exn_message = not_primitive_message p\<rparr>"

fun ToString :: "('n, 'w) platform \<Rightarrow> 'n jsval \<Rightarrow> exn + jsstring"
  and ToString_elements :: "('n, 'w) platform \<Rightarrow> 'n jsval list \<Rightarrow> exn + jsstring list" where
  "ToString p JUndefined = Inr (lit ''undefined'')"
| "ToString p JNull = Inr (lit ''null'')"
| "ToString p (JBool b) = Inr (if b then lit ''true'' else lit ''false'')"
| "ToString p (JNum n) = Inr (Number_toString p n)"
| "ToString p (JStr s) = Inr s"
| "ToString p (JArr vs) =
     (case ToString_elements p vs of Inl e \<Rightarrow> Inl e | Inr ss \<Rightarrow> Inr (join (lit '','') ss))"
| "ToString p (JObj kvs) =
     (if lit ''toString'' \<in> fst ` set kvs then Inl (not_primitive p) else Inr (lit ''[object Object]''))"
| "ToString_elements p [] = Inr []"
| "ToString_elements p (v # vs) =
     (case (case v of JUndefined \<Rightarrow> Inr [] | JNull \<Rightarrow> Inr [] | _ \<Rightarrow> ToString p v) of
        Inl e \<Rightarrow> Inl e
      | Inr s \<Rightarrow> (case ToString_elements p vs of Inl e \<Rightarrow> Inl e | Inr ss \<Rightarrow> Inr (s # ss)))"

text \<open>
  \<open>new Error(x)\<close> for a value \<open>x\<close>: the message is \<open>ToString(x)\<close>, whose
  \<open>TypeError\<close> is thrown in place of the new error; for \<open>undefined\<close> no message is
  set, and reading it gives the empty string.
\<close>

definition Error_of :: "('n, 'w) platform \<Rightarrow> 'n jsval \<Rightarrow> exn + exn" where
  "Error_of p x =
     (case x of
        JUndefined \<Rightarrow> Inr (new_Error [])
      | _ \<Rightarrow> (case ToString p x of Inl e \<Rightarrow> Inl e | Inr m \<Rightarrow> Inr (new_Error m)))"

text \<open>
  Property reads. None of the names the program reads from a parsed value
  (\<open>message\<close>, \<open>blobName\<close>, \<open>fileUrl\<close>, \<open>entries\<close>, \<open>value\<close>) is a built-in property
  of a string, number or boolean, and the only one that an array has built in,
  \<open>entries\<close>, is read only where \<open>Array.isArray\<close> has excluded arrays; so a read on
  anything but an object yields \<open>undefined\<close>. \<open>v.k\<close> throws a \<open>TypeError\<close> on
  \<open>null\<close> and \<open>undefined\<close>; \<open>v?.k\<close> yields \<open>undefined\<close> there.
\<close>

definition own_prop :: "(jsstring \<times> 'n jsval) list \<Rightarrow> jsstring \<Rightarrow> 'n jsval" where
  "own_prop kvs k = (case map_of kvs k of Some v \<Rightarrow> v | None \<Rightarrow> JUndefined)"

definition opt_prop :: "'n jsval \<Rightarrow> jsstring \<Rightarrow> 'n jsval" where
  "opt_prop v k = (case v of JObj kvs \<Rightarrow> own_prop kvs k | _ \<Rightarrow> JUndefined)"

definition get_prop :: "('n, 'w) platform \<Rightarrow> 'n jsval \<Rightarrow> jsstring \<Rightarrow> exn + 'n jsval" where
  "get_prop p v k =
     (case v of
        JUndefined \<Rightarrow> Inl \<lparr>exn_name = lit ''TypeError'', exn_message = nullish_read_message p v k\<rparr>
      | JNull \<Rightarrow> Inl \<lparr>exn_name = lit ''TypeError'', exn_message = nullish_read_message p v k\<rparr>
      | _ \<Rightarrow> Inr (opt_prop v k))"

section \<open>Application state and effects\<close>

text \<open>
  The component's state variables (\<open>useState\<close>). Variables filled from the form are
  strings; variables filled from a server response hold whatever value the response
  carried. \<open>text'\<close> and \<open>file'\<close> are the source's \<open>text\<close> and \<open>file\<close>.
\<close>

record mood_item =
  item_date :: jsstring
  item_mood :: int
  item_notes :: jsstring

record 'n app_state =
  userId :: jsstring
  text' :: jsstring
  visibility :: jsstring
  file' :: "file_object option"
  uploadedFileUrl :: "'n jsval"
  uploadedBlobName :: "'n jsval"
  entries :: "'n jsval"
  loadingEntries :: bool
  editingId :: "'n jsval"
  editText :: "'n jsval"
  editVisibility :: "'n jsval"
  status :: jsstring
  error :: jsstring
  mood :: int
  moodNotes :: jsstring
  moodHistory :: "mood_item list"

definition initial_state :: "'n app_state" where
  "initial_state =
     \<lparr>userId = lit ''u12345'', text' = [], visibility = lit ''private'', file' = None,
      uploadedFileUrl = JStr [], uploadedBlobName = JStr [], entries = JArr [],
      loadingEntries = False, editingId = JNull, editText = JStr [],
      editVisibility = JStr (lit ''private''), status = [], error = [], mood = 3,
      moodNotes = [], moodHistory = []\<rparr>"

text \<open>
  What an operation acts on: the live application state, the outside world, and the
  input/output performed so far (in order).
\<close>

datatype io_event = FileRead file_object | NetworkRequest request

record ('n, 'w) machine =
  app :: "'n app_state"
  world :: 'w
  trace :: "io_event list"

text \<open>
  An action runs on the machine and either throws (\<open>Inl\<close>) or returns (\<open>Inr\<close>); an
  \<open>await\<close> of a rejected promise throws. \<open>js_try_catch\<close> and \<open>js_try_finally\<close> are
  the \<open>try\<close> statement's two forms.
\<close>

type_synonym ('n, 'w, 'a) action = "('n, 'w) machine \<Rightarrow> (exn + 'a) \<times> ('n, 'w) machine"

definition js_return :: "'a \<Rightarrow> ('n, 'w, 'a) action" where
  "js_return a = (\<lambda>m. (Inr a, m))"

definition js_throw :: "exn \<Rightarrow> ('n, 'w, 'a) action" where
  "js_throw e = (\<lambda>m. (Inl e, m))"

definition js_lift :: "exn + 'a \<Rightarrow> ('n, 'w, 'a) action" where
  "js_lift r = (\<lambda>m. (r, m))"

definition js_bind :: "('n, 'w, 'a) action \<Rightarrow> ('a \<Rightarrow> ('n, 'w, 'b) action) \<Rightarrow> ('n, 'w, 'b) action" where
  "js_bind f g = (\<lambda>m. case f m of (Inl e, m') \<Rightarrow> (Inl e, m') | (Inr a, m') \<Rightarrow> g a m')"

definition js_try_catch :: "('n, 'w, 'a) action \<Rightarrow> (exn \<Rightarrow> ('n, 'w, 'a) action) \<Rightarrow> ('n, 'w, 'a) action" where
  "js_try_catch body handler = (\<lambda>m. case body m of (Inl e, m') \<Rightarrow> handler e m' | (Inr a, m') \<Rightarrow> (Inr a, m'))"

definition js_try_finally :: "('n, 'w, 'a) action \<Rightarrow> ('n, 'w, unit) action \<Rightarrow> ('n, 'w, 'a) action" where
  "js_try_finally body fin =
     (\<lambda>m. case body m of (r, m') \<Rightarrow> (case fin m' of (Inl e, m'') \<Rightarrow> (Inl e, m'') | (Inr u, m'') \<Rightarrow> (r, m'')))"

text \<open>A state setter (\<open>setStatus\<close>, \<open>setError\<close>, ...): an update of the live state.\<close>

definition set_state :: "('n app_state \<Rightarrow> 'n app_state) \<Rightarrow> ('n, 'w, unit) action" where
  "set_state f = (\<lambda>m. (Inr (), m\<lparr>app := f (app m)\<rparr>))"

definition perform_fetch :: "('n, 'w) platform \<Rightarrow> request \<Rightarrow> ('n, 'w, response) action" where
  "perform_fetch p req =
     (\<lambda>m. case fetch p req (world m) of
        (Rejected e, w) \<Rightarrow> (Inl e, m\<lparr>world := w, trace := trace m @ [NetworkRequest req]\<rparr>)
      | (Responded res, w) \<Rightarrow> (Inr res, m\<lparr>world := w, trace := trace m @ [NetworkRequest req]\<rparr>))"

section \<open>Helpers of the source\<close>

definition requireEndpoint :: "jsstring option \<Rightarrow> jsstring \<Rightarrow> exn + jsstring" where
  "requireEndpoint url name =
     (case url of
        None \<Rightarrow> Inl (new_Error (lit ''Missing '' @ name @ lit '' URL in .env''))
      | Some u \<Rightarrow> if u = [] then Inl (new_Error (lit ''Missing '' @ name @ lit '' URL in .env'')) else Inr u)"

definition toIsoNow :: "('n, 'w) platform \<Rightarrow> ('n, 'w, jsstring) action" where
  "toIsoNow p = (\<lambda>m. (Inr (Date_toISOString p (world m)), m))"

text \<open>
  \<open>readFileAsBase64\<close>. \<open>reader_onload\<close> is the \<open>onload\<close> callback applied to
  \<open>reader.result\<close>, a string: \<open>String(reader.result || "")\<close> is that string.
\<close>

definition reader_onload :: "jsstring \<Rightarrow> jsstring" where
  "reader_onload reader_result =
     (let result = (if reader_result \<noteq> [] then reader_result else []);
          commaIdx = indexOf result 44;
          base64 = (if commaIdx \<ge> 0 then slice_from result (commaIdx + 1) else result)
      in base64)"

definition readFileAsBase64 :: "('n, 'w) platform \<Rightarrow> file_object \<Rightarrow> ('n, 'w, jsstring) action" where
  "readFileAsBase64 p f =
     (\<lambda>m. case readAsDataURL p f (world m) of
        (None, w) \<Rightarrow> (Inl (new_Error (lit ''Failed to read file'')), m\<lparr>world := w, trace := trace m @ [FileRead f]\<rparr>)
      | (Some r, w) \<Rightarrow> (Inr (reader_onload r), m\<lparr>world := w, trace := trace m @ [FileRead f]\<rparr>))"

text \<open>
  \<open>apiFetchAbsolute\<close>. The options of a call: \<open>method\<close>, \<open>body\<close> and the caller's
  headers (none at every call site), which override the JSON content type.
  \<open>parse_body\<close> is the \<open>try\<close> statement that computes \<open>data\<close>: \<open>JSON.parse\<close>
  is called on a non-empty text only, and its \<open>SyntaxError\<close> (\<open>None\<close>) is caught.
  In \<open>data && data.message\<close> the property is read on a truthy value only, where
  the read cannot throw. In \<open>throw new Error(x)\<close> either the new error is thrown
  or the \<open>TypeError\<close> of the conversion of \<open>x\<close>.
\<close>

record fetch_options =
  opt_method :: jsstring
  opt_headers :: "(jsstring \<times> jsstring) list"
  opt_body :: jsstring

definition merged_headers :: "(jsstring \<times> jsstring) list \<Rightarrow> (jsstring \<times> jsstring) list" where
  "merged_headers hs =
     (if lit ''Content-Type'' \<in> fst ` set hs then [] else [(lit ''Content-Type'', lit ''application/json'')]) @ hs"

definition api_request :: "jsstring \<Rightarrow> fetch_options \<Rightarrow> request" where
  "api_request url options =
     \<lparr>req_url = url, req_method = opt_method options,
      req_headers = merged_headers (opt_headers options), req_body = opt_body options\<rparr>"

definition parse_body :: "('n, 'w) platform \<Rightarrow> jsstring \<Rightarrow> 'n jsval" where
  "parse_body p text =
     (if text \<noteq> [] then (case JSON_parse p text of Some v \<Rightarrow> v | None \<Rightarrow> JStr text) else JNull)"

definition apiFetchAbsolute :: "('n, 'w) platform \<Rightarrow> jsstring \<Rightarrow> fetch_options \<Rightarrow> ('n, 'w, 'n jsval) action" where
  "apiFetchAbsolute p url options =
     js_bind (perform_fetch p (api_request url options)) (\<lambda>res.
       let text = res_text res;
           data = parse_body p text
       in if \<not> res_ok res
          then (case Error_of p
                  (js_or p (js_or p (if truthy p data then opt_prop data (lit ''message'') else data) (JStr text))
                     (JStr (lit ''Request failed: '' @ digits (res_status res)))) of
                  Inl e \<Rightarrow> js_throw e
                | Inr e \<Rightarrow> js_throw e)
          else js_return data)"

definition post :: "jsstring \<Rightarrow> fetch_options" where
  "post body = \<lparr>opt_method = lit ''POST'', opt_headers = [], opt_body = body\<rparr>"

section \<open>Entry orchestration\<close>

text \<open>
  Each handler is a closure of one render: it reads the state variables of that
  render (the argument \<open>st\<close>) and writes through the setters (the live state of the
  machine). \<open>invoke\<close> is a user event: the handler of the current render is called.
  An operation is followed from its call to its end with no other event in between.
  For each handler, \<open>..._try\<close> is the block of its \<open>try\<close> statement; for create,
  update and delete, \<open>..._write\<close> is that block up to the
  \<open>await handleLoadEntries()\<close> that ends it. \<open>onTextChange\<close> and \<open>onFileChange\<close>
  are the \<open>onChange\<close> callbacks of the journal text area and of the file input,
  applied to the new text and to \<open>e.target.files?.[0] || null\<close>.
\<close>

definition invoke :: "('n app_state \<Rightarrow> ('n, 'w, 'a) action) \<Rightarrow> ('n, 'w, 'a) action" where
  "invoke handler = (\<lambda>m. handler (app m) m)"

definition onTextChange :: "jsstring \<Rightarrow> ('n, 'w, unit) action" where
  "onTextChange v = set_state (\<lambda>a. a\<lparr>text' := v\<rparr>)"

definition onFileChange :: "file_object option \<Rightarrow> ('n, 'w, unit) action" where
  "onFileChange sel = set_state (\<lambda>a. a\<lparr>file' := sel\<rparr>)"

definition canUpload :: "'n app_state \<Rightarrow> bool" where
  "canUpload st = (userId st \<noteq> [] \<and> file' st \<noteq> None)"

definition clearMessages :: "('n, 'w, unit) action" where
  "clearMessages = js_bind (set_state (\<lambda>a. a\<lparr>status := []\<rparr>)) (\<lambda>_. set_state (\<lambda>a. a\<lparr>error := []\<rparr>))"

definition entries_list :: "('n, 'w) platform \<Rightarrow> 'n jsval \<Rightarrow> 'n jsval" where
  "entries_list p data =
     (case data of
        JArr a \<Rightarrow> data
      | _ \<Rightarrow> js_or p (js_or p (opt_prop data (lit ''entries'')) (opt_prop data (lit ''value''))) (JArr []))"

definition handleLoadEntries_try :: "('n, 'w) platform \<Rightarrow> 'n app_state \<Rightarrow> ('n, 'w, unit) action" where
  "handleLoadEntries_try p st =
     (if userId st = [] then js_throw (new_Error (lit ''userId is required''))
      else
        js_bind (set_state (\<lambda>a. a\<lparr>loadingEntries := True\<rparr>)) (\<lambda>_.
        js_bind (set_state (\<lambda>a. a\<lparr>status := lit ''Loading entries...''\<rparr>)) (\<lambda>_.
        js_bind (js_lift (requireEndpoint (get (ENDPOINTS p)) (lit ''REACT_APP_GET_URL''))) (\<lambda>url.
        js_bind (apiFetchAbsolute p url
                   (post (JSON_stringify p (JObj [(lit ''userId'', JStr (userId st))])))) (\<lambda>data.
        let list = entries_list p data in
        js_bind (set_state (\<lambda>a. a\<lparr>entries := list\<rparr>)) (\<lambda>_.
        set_state (\<lambda>a. a\<lparr>status := lit ''Entries loaded '' @ [0x2705]\<rparr>)))))))"

definition handleLoadEntries :: "('n, 'w) platform \<Rightarrow> 'n app_state \<Rightarrow> ('n, 'w, unit) action" where
  "handleLoadEntries p st =
     js_bind clearMessages (\<lambda>_.
     js_try_finally
       (js_try_catch (handleLoadEntries_try p st)
          (\<lambda>e. js_bind (set_state (\<lambda>a. a\<lparr>error := exn_message e\<rparr>)) (\<lambda>_.
                set_state (\<lambda>a. a\<lparr>status := []\<rparr>))))
       (set_state (\<lambda>a. a\<lparr>loadingEntries := False\<rparr>)))"

text \<open>
  \<open>handleUpload\<close>. \<open>canUpload\<close> has excluded a missing file before the \<open>try\<close>
  block is entered.
\<close>

definition handleUpload_try :: "('n, 'w) platform \<Rightarrow> 'n app_state \<Rightarrow> ('n, 'w, unit) action" where
  "handleUpload_try p st =
     (case file' st of
        None \<Rightarrow> js_return ()
      | Some f \<Rightarrow>
        js_bind (set_state (\<lambda>a. a\<lparr>status := lit ''Uploading file to Blob via Logic App...''\<rparr>)) (\<lambda>_.
        js_bind (readFileAsBase64 p f) (\<lambda>base64.
        let payload = JObj
              [(lit ''userId'', JStr (userId st)),
               (lit ''filename'', JStr (file_name f)),
               (lit ''filetype'', JStr (if file_type f \<noteq> [] then file_type f else lit ''application/octet-stream'')),
               (lit ''fileBase64'', JStr base64)]
        in
        js_bind (js_lift (requireEndpoint (upload (ENDPOINTS p)) (lit ''REACT_APP_UPLOAD_URL''))) (\<lambda>url.
        js_bind (apiFetchAbsolute p url (post (JSON_stringify p payload))) (\<lambda>result.
        js_bind (js_lift (get_prop p result (lit ''blobName''))) (\<lambda>blobName.
        js_bind (set_state (\<lambda>a. a\<lparr>uploadedBlobName := js_or p blobName (JStr [])\<rparr>)) (\<lambda>_.
        js_bind (js_lift (get_prop p result (lit ''fileUrl''))) (\<lambda>fileUrl.
        js_bind (set_state (\<lambda>a. a\<lparr>uploadedFileUrl := js_or p fileUrl (JStr [])\<rparr>)) (\<lambda>_.
        set_state (\<lambda>a. a\<lparr>status := lit ''Upload complete '' @ [0x2705]\<rparr>))))))))))"

definition handleUpload :: "('n, 'w) platform \<Rightarrow> 'n app_state \<Rightarrow> ('n, 'w, unit) action" where
  "handleUpload p st =
     js_bind clearMessages (\<lambda>_.
     if \<not> canUpload st then js_return ()
     else js_try_catch (handleUpload_try p st)
            (\<lambda>e. js_bind (set_state (\<lambda>a. a\<lparr>error := exn_message e\<rparr>)) (\<lambda>_.
                  set_state (\<lambda>a. a\<lparr>status := []\<rparr>))))"

text \<open>
  \<open>handleCreateEntry\<close>. \<open>create_payload\<close> is the object literal \<open>payload\<close> of the
  source, \<open>now\<close> the result of \<open>toIsoNow()\<close>.
\<close>

definition create_payload :: "('n, 'w) platform \<Rightarrow> 'n app_state \<Rightarrow> jsstring \<Rightarrow> (jsstring \<times> 'n jsval) list" where
  "create_payload p st now =
     [(lit ''userId'', JStr (userId st)),
      (lit ''text'', JStr (trim (text' st))),
      (lit ''visibility'', JStr (visibility st)),
      (lit ''uploadDate'', JStr now)] @
     (if truthy p (uploadedFileUrl st)
      then [(lit ''filename'', JStr (case file' st of Some f \<Rightarrow> file_name f | None \<Rightarrow> [])),
            (lit ''filetype'', JStr (case file' st of Some f \<Rightarrow> file_type f | None \<Rightarrow> [])),
            (lit ''fileUrl'', uploadedFileUrl st)]
      else [])"

definition handleCreateEntry_write :: "('n, 'w) platform \<Rightarrow> 'n app_state \<Rightarrow> ('n, 'w, unit) action" where
  "handleCreateEntry_write p st =
     (if userId st = [] then js_throw (new_Error (lit ''userId is required''))
      else if trim (text' st) = [] then js_throw (new_Error (lit ''Journal text is required''))
      else
        js_bind (set_state (\<lambda>a. a\<lparr>status := lit ''Creating journal entry in Cosmos DB...''\<rparr>)) (\<lambda>_.
        js_bind (toIsoNow p) (\<lambda>now.
        let payload = JObj (create_payload p st now) in
        js_bind (js_lift (requireEndpoint (create (ENDPOINTS p)) (lit ''REACT_APP_CREATE_URL''))) (\<lambda>url.
        js_bind (apiFetchAbsolute p url (post (JSON_stringify p payload))) (\<lambda>_.
        js_bind (set_state (\<lambda>a. a\<lparr>status := lit ''Entry created '' @ [0x2705]\<rparr>)) (\<lambda>_.
        js_bind (set_state (\<lambda>a. a\<lparr>text' := []\<rparr>)) (\<lambda>_.
        if truthy p (uploadedFileUrl st)
        then js_bind (set_state (\<lambda>a. a\<lparr>file' := None\<rparr>)) (\<lambda>_.
             js_bind (set_state (\<lambda>a. a\<lparr>uploadedFileUrl := JStr []\<rparr>)) (\<lambda>_.
             set_state (\<lambda>a. a\<lparr>uploadedBlobName := JStr []\<rparr>)))
        else js_return ())))))))"

definition handleCreateEntry_try :: "('n, 'w) platform \<Rightarrow> 'n app_state \<Rightarrow> ('n, 'w, unit) action" where
  "handleCreateEntry_try p st =
     js_bind (handleCreateEntry_write p st) (\<lambda>_. handleLoadEntries p st)"

definition handleCreateEntry :: "('n, 'w) platform \<Rightarrow> 'n app_state \<Rightarrow> ('n, 'w, unit) action" where
  "handleCreateEntry p st =
     js_bind clearMessages (\<lambda>_.
     js_try_catch (handleCreateEntry_try p st)
       (\<lambda>e. js_bind (set_state (\<lambda>a. a\<lparr>error := exn_message e\<rparr>)) (\<lambda>_.
             set_state (\<lambda>a. a\<lparr>status := []\<rparr>))))"

definition cancelEdit :: "('n, 'w, unit) action" where
  "cancelEdit =
     js_bind (set_state (\<lambda>a. a\<lparr>editingId := JNull\<rparr>)) (\<lambda>_.
     js_bind (set_state (\<lambda>a. a\<lparr>editText := JStr []\<rparr>)) (\<lambda>_.
     set_state (\<lambda>a. a\<lparr>editVisibility := JStr (lit ''private'')\<rparr>)))"

definition handleUpdate_write :: "('n, 'w) platform \<Rightarrow> 'n app_state \<Rightarrow> 'n jsval \<Rightarrow> ('n, 'w, unit) action" where
  "handleUpdate_write p st entryId =
     (if \<not> truthy p entryId then js_throw (new_Error (lit ''Missing entryId''))
      else
        js_bind (set_state (\<lambda>a. a\<lparr>status := lit ''Updating entry...''\<rparr>)) (\<lambda>_.
        js_bind (js_lift (requireEndpoint (update (ENDPOINTS p)) (lit ''REACT_APP_UPDATE_URL''))) (\<lambda>url.
        let payload = JObj
              [(lit ''id'', entryId),
               (lit ''entryId'', entryId),
               (lit ''text'', editText st),
               (lit ''visibility'', editVisibility st)]
        in
        js_bind (apiFetchAbsolute p url (post (JSON_stringify p payload))) (\<lambda>_.
        js_bind (set_state (\<lambda>a. a\<lparr>status := lit ''Entry updated '' @ [0x2705]\<rparr>)) (\<lambda>_.
        cancelEdit)))))"

definition handleUpdate_try :: "('n, 'w) platform \<Rightarrow> 'n app_state \<Rightarrow> 'n jsval \<Rightarrow> ('n, 'w, unit) action" where
  "handleUpdate_try p st entryId =
     js_bind (handleUpdate_write p st entryId) (\<lambda>_. handleLoadEntries p st)"

definition handleUpdate :: "('n, 'w) platform \<Rightarrow> 'n app_state \<Rightarrow> 'n jsval \<Rightarrow> ('n, 'w, unit) action" where
  "handleUpdate p st entryId =
     js_bind clearMessages (\<lambda>_.
     js_try_catch (handleUpdate_try p st entryId)
       (\<lambda>e. js_bind (set_state (\<lambda>a. a\<lparr>error := (if exn_message e \<noteq> [] then exn_message e else String_exn e)\<rparr>)) (\<lambda>_.
             set_state (\<lambda>a. a\<lparr>status := []\<rparr>))))"

definition handleDelete_write :: "('n, 'w) platform \<Rightarrow> 'n app_state \<Rightarrow> 'n jsval \<Rightarrow> ('n, 'w, unit) action" where
  "handleDelete_write p st entryId =
     (if \<not> truthy p entryId then js_throw (new_Error (lit ''Missing entryId''))
      else
        js_bind (set_state (\<lambda>a. a\<lparr>status := lit ''Deleting entry...''\<rparr>)) (\<lambda>_.
        js_bind (js_lift (requireEndpoint (del (ENDPOINTS p)) (lit ''REACT_APP_DELETE_URL''))) (\<lambda>url.
        let payload = JObj [(lit ''id'', entryId), (lit ''entryId'', entryId)] in
        js_bind (apiFetchAbsolute p url (post (JSON_stringify p payload))) (\<lambda>_.
        set_state (\<lambda>a. a\<lparr>status := lit ''Entry deleted '' @ [0x2705]\<rparr>)))))"

definition handleDelete_try :: "('n, 'w) platform \<Rightarrow> 'n app_state \<Rightarrow> 'n jsval \<Rightarrow> ('n, 'w, unit) action" where
  "handleDelete_try p st entryId =
     js_bind (handleDelete_write p st entryId) (\<lambda>_. handleLoadEntries p st)"

definition handleDelete :: "('n, 'w) platform \<Rightarrow> 'n app_state \<Rightarrow> 'n jsval \<Rightarrow> ('n, 'w, unit) action" where
  "handleDelete p st entryId =
     js_bind clearMessages (\<lambda>_.
     js_try_catch (handleDelete_try p st entryId)
       (\<lambda>e. js_bind (set_state (\<lambda>a. a\<lparr>error := (if exn_message e \<noteq> [] then exn_message e else String_exn e)\<rparr>)) (\<lambda>_.
             set_state (\<lambda>a. a\<lparr>status := []\<rparr>))))"

section \<open>Mood log and mock assistant\<close>

definition addMoodEntry :: "('n, 'w) platform \<Rightarrow> 'n app_state \<Rightarrow> ('n, 'w, unit) action" where
  "addMoodEntry p st =
     js_bind (toIsoNow p) (\<lambda>now.
     let item = \<lparr>item_date = now, item_mood = mood st, item_notes = trim (moodNotes st)\<rparr> in
     js_bind (set_state (\<lambda>a. a\<lparr>moodHistory := take 14 (item # moodHistory a)\<rparr>)) (\<lambda>_.
     set_state (\<lambda>a. a\<lparr>moodNotes := []\<rparr>)))"









section \<open>Notions used in the statements\<close>

text \<open>
  What \<open>apiFetchAbsolute\<close> throws for a response: an error whose message is the
  string form of the parsed body's \<open>message\<close> property when that property is truthy
  (the \<open>TypeError\<close> of the conversion when it has no string form), else an error
  with the raw text when it is not empty, else one with the generic message and the
  status code.
\<close>

definition failure :: "('n, 'w) platform \<Rightarrow> response \<Rightarrow> exn" where
  "failure p res =
     (let field = opt_prop (parse_body p (res_text res)) (lit ''message'')
      in if truthy p field
         then (case ToString p field of Inl e \<Rightarrow> e | Inr m \<Rightarrow> new_Error m)
         else if res_text res \<noteq> [] then new_Error (res_text res)
         else new_Error (lit ''Request failed: '' @ digits (res_status res)))"

text \<open>An endpoint variable is unset when it is undefined or the empty string.\<close>

definition unset :: "jsstring option \<Rightarrow> bool" where
  "unset url = (url = None \<or> url = Some [])"

definition missing :: "jsstring \<Rightarrow> jsstring" where
  "missing name = lit ''Missing '' @ name @ lit '' URL in .env''"

text \<open>
  One use of the mood form: by the time of the click the world is \<open>w\<close>, the slider
  stands at \<open>score\<close> and the notes field holds \<open>note\<close>; then \<open>addMoodEntry\<close> runs.
  \<open>mood_session\<close> is a sequence of such uses, \<open>saved_item\<close> the record each one
  appends.
\<close>

definition save_mood :: "('n, 'w) platform \<Rightarrow> ('n, 'w) machine \<Rightarrow> 'w \<times> int \<times> jsstring \<Rightarrow> ('n, 'w) machine" where
  "save_mood p m ev =
     (case ev of (w, score, note) \<Rightarrow>
        snd (invoke (addMoodEntry p) (m\<lparr>world := w, app := (app m)\<lparr>mood := score, moodNotes := note\<rparr>\<rparr>)))"

definition mood_session :: "('n, 'w) platform \<Rightarrow> ('w \<times> int \<times> jsstring) list \<Rightarrow> ('n, 'w) machine \<Rightarrow> ('n, 'w) machine" where
  "mood_session p evs m = foldl (save_mood p) m evs"

definition saved_item :: "('n, 'w) platform \<Rightarrow> 'w \<times> int \<times> jsstring \<Rightarrow> mood_item" where
  "saved_item p ev =
     (case ev of (w, score, note) \<Rightarrow>
        \<lparr>item_date = Date_toISOString p w, item_mood = score, item_notes = trim note\<rparr>)"

text \<open>
  The requests the operations send, and the names of the three media properties of a
  create payload.
\<close>

definition list_request :: "('n, 'w) platform \<Rightarrow> 'n app_state \<Rightarrow> jsstring \<Rightarrow> request" where
  "list_request p st url =
     api_request url (post (JSON_stringify p (JObj [(lit ''userId'', JStr (userId st))])))"

definition create_request :: "('n, 'w) platform \<Rightarrow> 'n app_state \<Rightarrow> jsstring \<Rightarrow> jsstring \<Rightarrow> request" where
  "create_request p st now url =
     api_request url (post (JSON_stringify p (JObj (create_payload p st now))))"


definition upload_request :: "('n, 'w) platform \<Rightarrow> 'n app_state \<Rightarrow> file_object \<Rightarrow> jsstring \<Rightarrow> jsstring \<Rightarrow> request" where
  "upload_request p st f base64 url =
     api_request url (post (JSON_stringify p (JObj
       [(lit ''userId'', JStr (userId st)),
        (lit ''filename'', JStr (file_name f)),
        (lit ''filetype'', JStr (if file_type f \<noteq> [] then file_type f else lit ''application/octet-stream'')),
        (lit ''fileBase64'', JStr base64)])))"


definition media_keys :: "jsstring set" where
  "media_keys = {lit ''filename'', lit ''filetype'', lit ''fileUrl''}"

section \<open>A scripted platform\<close>

text \<open>
  A concrete platform on which the operations can be run: numbers are integers, the
  servers answer with a prepared list of outcomes (one per request, a network error
  once the list is used up), \<open>JSON.parse\<close> is given by a table of the response texts
  of the scenario with the values they denote (a text that is not listed is not JSON),
  \<open>JSON.stringify\<close> prints a value, and the \<open>TypeError\<close> wording is V8's.
\<close>

definition hex_digit :: "nat \<Rightarrow> nat" where
  "hex_digit d = (if d < 10 then 48 + d else 87 + d)"

definition unicode_escape :: "nat \<Rightarrow> jsstring" where
  "unicode_escape c =
     [92, 117, hex_digit (c div 4096 mod 16), hex_digit (c div 256 mod 16),
      hex_digit (c div 16 mod 16), hex_digit (c mod 16)]"

fun quote_chars :: "jsstring \<Rightarrow> jsstring" where
  "quote_chars [] = []"
| "quote_chars (c # cs) =
     (if c = 34 then [92, 34] @ quote_chars cs
      else if c = 92 then [92, 92] @ quote_chars cs
      else if c = 8 then [92, 98] @ quote_chars cs
      else if c = 9 then [92, 116] @ quote_chars cs
      else if c = 10 then [92, 110] @ quote_chars cs
      else if c = 12 then [92, 102] @ quote_chars cs
      else if c = 13 then [92, 114] @ quote_chars cs
      else if c < 32 then unicode_escape c @ quote_chars cs
      else if 0xD800 \<le> c \<and> c < 0xDC00 then
        (case cs of
           d # ds \<Rightarrow> if 0xDC00 \<le> d \<and> d < 0xE000 then c # d # quote_chars ds else unicode_escape c @ quote_chars cs
         | [] \<Rightarrow> unicode_escape c)
      else if 0xDC00 \<le> c \<and> c < 0xE000 then unicode_escape c @ quote_chars cs
      else c # quote_chars cs)"

definition quote :: "jsstring \<Rightarrow> jsstring" where
  "quote s = [34] @ quote_chars s @ [34]"

fun stringify :: "int jsval \<Rightarrow> jsstring"
  and stringify_elements :: "int jsval list \<Rightarrow> jsstring list"
  and stringify_members :: "(jsstring \<times> int jsval) list \<Rightarrow> jsstring list" where
  "stringify JUndefined = []"
| "stringify JNull = lit ''null''"
| "stringify (JBool b) = (if b then lit ''true'' else lit ''false'')"
| "stringify (JNum n) = int_toString n"
| "stringify (JStr s) = quote s"
| "stringify (JArr vs) = lit ''['' @ join (lit '','') (stringify_elements vs) @ lit '']''"
| "stringify (JObj kvs) = lit ''{'' @ join (lit '','') (stringify_members kvs) @ lit ''}''"
| "stringify_elements [] = []"
| "stringify_elements (v # vs) =
     (case v of JUndefined \<Rightarrow> lit ''null'' | _ \<Rightarrow> stringify v) # stringify_elements vs"
| "stringify_members [] = []"
| "stringify_members (kv # kvs) =
     (case snd kv of
        JUndefined \<Rightarrow> stringify_members kvs
      | v \<Rightarrow> (quote (fst kv) @ lit '':'' @ stringify v) # stringify_members kvs)"


record scripted_world =
  responses :: "fetch_outcome list"
  file_contents :: "(file_object \<times> jsstring) list"
  clock :: jsstring

definition scripted :: "(jsstring \<times> int jsval) list \<Rightarrow> endpoints \<Rightarrow> (int, scripted_world) platform" where
  "scripted parses eps =
     \<lparr>JSON_parse = map_of parses,
      JSON_stringify = stringify,
      Number_truthy = (\<lambda>i. i \<noteq> 0),
      Number_toString = int_toString,
      nullish_read_message = (\<lambda>v k. lit ''Cannot read properties of '' @
         (case v of JNull \<Rightarrow> lit ''null'' | _ \<Rightarrow> lit ''undefined'') @ lit '' (reading '' @ [39] @ k @ [39] @ lit '')''),
      not_primitive_message = lit ''Cannot convert object to primitive value'',
      fetch = (\<lambda>req w. case responses w of
                 [] \<Rightarrow> (Rejected \<lparr>exn_name = lit ''TypeError'', exn_message = lit ''Failed to fetch''\<rparr>, w)
               | r # rs \<Rightarrow> (r, w\<lparr>responses := rs\<rparr>)),
      readAsDataURL = (\<lambda>f w. (map_of (file_contents w) f, w)),
      Date_toISOString = clock,
      ENDPOINTS = eps\<rparr>"

definition all_endpoints :: endpoints where
  "all_endpoints =
     \<lparr>upload = Some (lit ''https://api.example/upload''),
      create = Some (lit ''https://api.example/create''),
      get = Some (lit ''https://api.example/get''),
      update = Some (lit ''https://api.example/update''),
      del = Some (lit ''https://api.example/delete'')\<rparr>"

definition scene :: "int app_state \<Rightarrow> fetch_outcome list \<Rightarrow> (file_object \<times> jsstring) list \<Rightarrow> (int, scripted_world) machine" where
  "scene st rs files =
     \<lparr>app = st,
      world = \<lparr>responses = rs, file_contents = files, clock = lit ''2026-01-01T00:00:00.000Z''\<rparr>,
      trace = []\<rparr>"

definition start :: "fetch_outcome list \<Rightarrow> (int, scripted_world) machine" where
  "start rs = scene initial_state rs []"

text \<open>The platform of the scenarios below, and a selected file with its data URL.\<close>

definition message_scenario :: "(int, scripted_world) platform" where
  \<open>message_scenario =
     scripted
       [(lit ''{"message":"quota exceeded"}'', JObj [(lit ''message'', JStr (lit ''quota exceeded''))]),
        (lit ''{"message":""}'', JObj [(lit ''message'', JStr [])]),
        (lit ''{"message":[]}'', JObj [(lit ''message'', JArr [])]),
        (lit ''{"entries":"x"}'', JObj [(lit ''entries'', JStr (lit ''x''))]),
        (lit ''[{"id":"e1"}]'', JArr [JObj [(lit ''id'', JStr (lit ''e1''))]]),
        (lit ''{"entries":[{"id":"e1"}]}'', JObj [(lit ''entries'', JArr [JObj [(lit ''id'', JStr (lit ''e1''))]])]),
        (lit ''{"value":[{"id":"e1"}]}'', JObj [(lit ''value'', JArr [JObj [(lit ''id'', JStr (lit ''e1''))]])]),
        (lit ''{"count":0}'', JObj [(lit ''count'', JNum 0)]),
        (lit ''{"message":{"toString":1}}'', JObj [(lit ''message'', JObj [(lit ''toString'', JNum 1)])]),
        (lit ''{"blobName":"u12345/notes.txt","fileUrl":"https://blob.example/u12345/notes.txt"}'',
         JObj [(lit ''blobName'', JStr (lit ''u12345/notes.txt'')),
               (lit ''fileUrl'', JStr (lit ''https://blob.example/u12345/notes.txt''))])]
       all_endpoints\<close>

definition notes_txt :: file_object where
  "notes_txt = \<lparr>file_name = lit ''notes.txt'', file_type = lit ''text/plain''\<rparr>"

definition notes_txt_url :: jsstring where
  "notes_txt_url = lit ''data:text/plain;base64,AAAA''"

definition photo_png :: file_object where
  "photo_png = \<lparr>file_name = lit ''photo.png'', file_type = lit ''image/png''\<rparr>"

definition upload_reply :: response where
  \<open>upload_reply =
     \<lparr>res_ok = True, res_status = 200,
      res_text = lit ''{"blobName":"u12345/notes.txt","fileUrl":"https://blob.example/u12345/notes.txt"}''\<rparr>\<close>


text \<open>
  States and worlds of the scenarios: a journal text typed in; the same with a file
  selected and uploaded; a file selected and not uploaded; a platform on which no
  endpoint is configured; the world on day \<open>d\<close> of a month, and fifteen daily uses of the mood form.
  \<open>upload_then\<close> is a session: a file is selected and uploaded, then the selection
  is changed to \<open>sel\<close> (nothing, or another file) and a journal text is typed.
\<close>

definition journal_state :: "int app_state" where
  "journal_state = initial_state\<lparr>text' := lit ''  Felt okay today ''\<rparr>"

definition attached_state :: "int app_state" where
  "attached_state =
     journal_state\<lparr>file' := Some notes_txt,
       uploadedFileUrl := JStr (lit ''https://blob.example/u12345/notes.txt''),
       uploadedBlobName := JStr (lit ''u12345/notes.txt'')\<rparr>"

definition picked_state :: "int app_state" where
  "picked_state = initial_state\<lparr>file' := Some notes_txt\<rparr>"

definition unconfigured :: "(int, scripted_world) platform" where
  "unconfigured = scripted [] \<lparr>upload = None, create = None, get = Some [], update = None, del = Some []\<rparr>"

definition upload_then :: "file_object option \<Rightarrow> (int, scripted_world) machine" where
  "upload_then sel =
     snd (onTextChange (lit ''Felt okay today'')
       (snd (onFileChange sel
         (snd (invoke (handleUpload message_scenario)
           (snd (onFileChange (Some notes_txt)
             (scene initial_state [Responded upload_reply] [(notes_txt, notes_txt_url)]))))))))"

definition day_world :: "nat \<Rightarrow> scripted_world" where
  "day_world d =
     \<lparr>responses = [], file_contents = [],
      clock = lit ''2026-01-'' @ [48 + d div 10, 48 + d mod 10] @ lit ''T09:00:00.000Z''\<rparr>"

definition fifteen_days :: "(scripted_world \<times> int \<times> jsstring) list" where
  "fifteen_days =
     map (\<lambda>d. (day_world d, 3, lit '' fine ''))
       [1, 2, 3, 4, 5, 6, 7, 8, 9, 10, 11, 12, 13, 14, 15]"

section \<open>Basic facts\<close>

declare digits.simps [simp del]

lemmas action_defs = js_bind_def js_return_def js_throw_def js_lift_def js_try_catch_def
  js_try_finally_def set_state_def

lemma indexOf_absent: "c \<notin> set s \<Longrightarrow> indexOf s c = - 1"
  by (induction s) auto

lemma indexOf_first: "c \<notin> set pre \<Longrightarrow> indexOf (pre @ c # suf) c = int (length pre)"
  by (induction pre) (auto simp: Let_def)

lemma reader_onload_comma: "44 \<notin> set pre \<Longrightarrow> reader_onload (pre @ 44 # suf) = suf"
  by (simp add: reader_onload_def indexOf_first slice_from_def Let_def nat_add_distrib)

lemma reader_onload_no_comma: "44 \<notin> set s \<Longrightarrow> reader_onload s = s"
  by (simp add: reader_onload_def indexOf_absent Let_def)

lemma truthy_opt_prop: "truthy p (opt_prop v k) \<Longrightarrow> truthy p v"
  by (cases v) (simp_all add: opt_prop_def)

lemma digits_nonempty: "digits n \<noteq> []"
  by (subst digits.simps) simp


lemma requireEndpoint_unset:
  "requireEndpoint url name = (if unset url then Inl (new_Error (missing name)) else Inr (the url))"
  by (cases url) (simp_all add: requireEndpoint_def unset_def missing_def)

lemma Error_of_string: "Error_of p (JStr m) = Inr (new_Error m)"
  by (simp add: Error_of_def)

lemma Error_of_truthy:
  "truthy p x \<Longrightarrow> Error_of p x = (case ToString p x of Inl e \<Rightarrow> Inl e | Inr m \<Rightarrow> Inr (new_Error m))"
  by (cases x) (simp_all add: Error_of_def)

lemma apiFetchAbsolute_responded:
  assumes "fetch p (api_request url options) (world m) = (Responded res, w)"
  shows "apiFetchAbsolute p url options m =
           (if res_ok res then Inr (parse_body p (res_text res)) else Inl (failure p res),
            m\<lparr>world := w, trace := trace m @ [NetworkRequest (api_request url options)]\<rparr>)"
proof (cases "truthy p (opt_prop (parse_body p (res_text res)) (lit ''message''))")
  case True
  then have "truthy p (parse_body p (res_text res))"
    by (rule truthy_opt_prop)
  with True assms show ?thesis
    by (simp add: apiFetchAbsolute_def perform_fetch_def action_defs failure_def js_or_def Let_def
        Error_of_truthy split: sum.splits)
next
  case False
  then have "\<not> truthy p (if truthy p (parse_body p (res_text res))
                then opt_prop (parse_body p (res_text res)) (lit ''message'')
                else parse_body p (res_text res))"
    by simp
  with assms show ?thesis
    by (simp add: apiFetchAbsolute_def perform_fetch_def action_defs failure_def js_or_def
        Let_def False digits_nonempty Error_of_string del: digits.simps)
qed

lemma apiFetchAbsolute_rejected:
  assumes "fetch p (api_request url options) (world m) = (Rejected e, w)"
  shows "apiFetchAbsolute p url options m =
           (Inl e, m\<lparr>world := w, trace := trace m @ [NetworkRequest (api_request url options)]\<rparr>)"
  using assms by (simp add: apiFetchAbsolute_def perform_fetch_def action_defs)

lemma apiFetchAbsolute_run:
  "apiFetchAbsolute p url options m =
     (case fetch p (api_request url options) (world m) of
        (Rejected e, w) \<Rightarrow>
          (Inl e, m\<lparr>world := w, trace := trace m @ [NetworkRequest (api_request url options)]\<rparr>)
      | (Responded res, w) \<Rightarrow>
          (if res_ok res then Inr (parse_body p (res_text res)) else Inl (failure p res),
           m\<lparr>world := w, trace := trace m @ [NetworkRequest (api_request url options)]\<rparr>))"
proof (cases "fetch p (api_request url options) (world m)")
  case (Pair out w)
  then show ?thesis
    by (cases out) (simp_all add: apiFetchAbsolute_rejected apiFetchAbsolute_responded)
qed

section \<open>The scripted platform at work\<close>

text \<open>What the platform of the scenarios answers, and facts about the scenario states.\<close>

lemma scripted_fetch_scene:
  "fetch (scripted t eps) req (world (scene st (r # rs) files)) = (r, world (scene st' rs files))"
  by (simp add: scripted_def scene_def)

lemma message_scenario_fetch:
  "fetch message_scenario req (world (scene st (r # rs) files)) = (r, world (scene st rs files))"
  unfolding message_scenario_def by (rule scripted_fetch_scene)

lemma message_scenario_fetch_start:
  "fetch message_scenario req (world (start (r # rs))) = (r, world (start rs))"
  unfolding start_def by (rule message_scenario_fetch)


lemma message_scenario_read:
  "readAsDataURL message_scenario f (world (scene st rs files)) = (map_of files f, world (scene st rs files))"
  by (simp add: message_scenario_def scripted_def scene_def)

lemma message_scenario_simps:
  "JSON_parse message_scenario (lit ''{\"message\":\"quota exceeded\"}'') = Some (JObj [(lit ''message'', JStr (lit ''quota exceeded''))])"
  "JSON_parse message_scenario (lit ''{\"message\":\"\"}'') = Some (JObj [(lit ''message'', JStr [])])"
  "JSON_parse message_scenario (lit ''{\"message\":[]}'') = Some (JObj [(lit ''message'', JArr [])])"
  "JSON_parse message_scenario (lit ''{\"entries\":\"x\"}'') = Some (JObj [(lit ''entries'', JStr (lit ''x''))])"
  "JSON_parse message_scenario (lit ''[{\"id\":\"e1\"}]'') = Some (JArr [JObj [(lit ''id'', JStr (lit ''e1''))]])"
  "JSON_parse message_scenario (lit ''{\"entries\":[{\"id\":\"e1\"}]}'') = Some (JObj [(lit ''entries'', JArr [JObj [(lit ''id'', JStr (lit ''e1''))]])])"
  "JSON_parse message_scenario (lit ''{\"value\":[{\"id\":\"e1\"}]}'') = Some (JObj [(lit ''value'', JArr [JObj [(lit ''id'', JStr (lit ''e1''))]])])"
  "JSON_parse message_scenario (lit ''{\"count\":0}'') = Some (JObj [(lit ''count'', JNum 0)])"
  "JSON_parse message_scenario (lit ''{\"message\":{\"toString\":1}}'') =
     Some (JObj [(lit ''message'', JObj [(lit ''toString'', JNum 1)])])"
  "JSON_parse message_scenario (res_text upload_reply) =
     Some (JObj [(lit ''blobName'', JStr (lit ''u12345/notes.txt'')),
                 (lit ''fileUrl'', JStr (lit ''https://blob.example/u12345/notes.txt''))])"
  "JSON_parse message_scenario (lit ''Bad Gateway'') = None"
  "JSON_parse message_scenario (lit ''<html>ok</html>'') = None"
  "Number_truthy message_scenario = (\<lambda>i. i \<noteq> 0)"
  "Number_toString message_scenario = int_toString"
  "ENDPOINTS message_scenario = all_endpoints"
  by (simp_all add: message_scenario_def scripted_def upload_reply_def lit_def)


lemma failure_scenario_status:
  "failure message_scenario \<lparr>res_ok = False, res_status = 503, res_text = []\<rparr> =
     new_Error (lit ''Request failed: 503'')"
  by (simp add: failure_def parse_body_def opt_prop_def lit_def) code_simp

lemma scenario_endpoints:
  "create (ENDPOINTS message_scenario) = Some (lit ''https://api.example/create'')"
  "lit ''https://api.example/create'' \<noteq> []"
  "update (ENDPOINTS message_scenario) = Some (lit ''https://api.example/update'')"
  "lit ''https://api.example/update'' \<noteq> []"
  by (simp_all add: message_scenario_simps all_endpoints_def lit_def)

lemma get_endpoint:
  "get (ENDPOINTS message_scenario) = Some (lit ''https://api.example/get'')"
  "lit ''https://api.example/get'' \<noteq> []"
  by (simp_all add: message_scenario_simps all_endpoints_def lit_def)

lemma initial_userId: "userId (initial_state :: int app_state) \<noteq> []"
  by (simp add: initial_state_def lit_def)

lemma scenario_states:
  "canUpload picked_state" "file' picked_state = Some notes_txt"
  "userId journal_state \<noteq> []" "trim (text' journal_state) \<noteq> []"
  "truthy message_scenario (JStr (lit ''e1''))"
  by (simp_all add: canUpload_def picked_state_def journal_state_def initial_state_def trim_def
      isWhiteSpace_def lit_def)

lemma parse_body_scenario:
  "parse_body message_scenario (lit ''[{\"id\":\"e1\"}]'') = JArr [JObj [(lit ''id'', JStr (lit ''e1''))]]"
  "parse_body message_scenario (lit ''{\"entries\":[{\"id\":\"e1\"}]}'') =
     JObj [(lit ''entries'', JArr [JObj [(lit ''id'', JStr (lit ''e1''))]])]"
  "parse_body message_scenario (lit ''{\"value\":[{\"id\":\"e1\"}]}'') =
     JObj [(lit ''value'', JArr [JObj [(lit ''id'', JStr (lit ''e1''))]])]"
  "parse_body message_scenario (lit ''{\"count\":0}'') = JObj [(lit ''count'', JNum 0)]"
  "parse_body message_scenario (lit ''{\"entries\":\"x\"}'') = JObj [(lit ''entries'', JStr (lit ''x''))]"
  by (simp_all add: parse_body_def message_scenario_simps) (simp_all add: lit_def)

lemma own_prop_scenario:
  "own_prop [(lit ''entries'', v)] (lit ''entries'') = v"
  "own_prop [(lit ''value'', v)] (lit ''value'') = v"
  "own_prop [(lit ''value'', v)] (lit ''entries'') = JUndefined"
  "own_prop [(lit ''count'', v)] (lit ''entries'') = JUndefined"
  "own_prop [(lit ''count'', v)] (lit ''value'') = JUndefined"
  by (simp_all add: own_prop_def lit_def)

lemma unconfigured_simps:
  "ENDPOINTS unconfigured = \<lparr>upload = None, create = None, get = Some [], update = None, del = Some []\<rparr>"
  "readAsDataURL unconfigured f (world (scene st rs files)) = (map_of files f, world (scene st rs files))"
  "truthy unconfigured (JStr s) = (s \<noteq> [])"
  by (simp_all add: unconfigured_def scripted_def scene_def)

lemma scene_simps:
  "trace (scene st rs files) = []" "app (scene st rs files) = st"
  by (simp_all add: scene_def)

section \<open>Remote call adapter\<close>




text \<open>
  C2. A response with a success status and a non-empty body: when the body is not JSON
  the call returns the raw text (it does not throw); when it is JSON the call returns
  the parsed value.
\<close>

theorem apiFetchAbsolute_success_result:
  assumes "fetch p (api_request url options) (world m) = (Responded res, w)"
    and "res_ok res" and "res_text res \<noteq> []"
  shows "(JSON_parse p (res_text res) = None \<longrightarrow>
            fst (apiFetchAbsolute p url options m) = Inr (JStr (res_text res))) \<and>
         (\<forall>v. JSON_parse p (res_text res) = Some v \<longrightarrow>
            fst (apiFetchAbsolute p url options m) = Inr v)"
  using assms by (simp add: apiFetchAbsolute_responded parse_body_def)

theorem apiFetchAbsolute_success_result_witness:
  \<open>fst (apiFetchAbsolute message_scenario (lit ''https://api.example/get'') (post (lit ''{}''))
          (start [Responded \<lparr>res_ok = True, res_status = 200, res_text = lit ''<html>ok</html>''\<rparr>]))
     = Inr (JStr (lit ''<html>ok</html>'')) \<and>
   fst (apiFetchAbsolute message_scenario (lit ''https://api.example/get'') (post (lit ''{}''))
          (start [Responded \<lparr>res_ok = True, res_status = 200, res_text = lit ''[{"id":"e1"}]''\<rparr>]))
     = Inr (JArr [JObj [(lit ''id'', JStr (lit ''e1''))]])\<close>
proof -
  have h: "fetch message_scenario (api_request url options) (world (start [Responded res])) =
             (Responded res, world (start []))" for url options res
    by (rule message_scenario_fetch_start)
  have ne: "lit ''<html>ok</html>'' \<noteq> []" "lit ''[{\"id\":\"e1\"}]'' \<noteq> []"
    by (simp_all add: lit_def)
  show ?thesis
    using apiFetchAbsolute_success_result [OF h, of "\<lparr>res_ok = True, res_status = 200, res_text = lit ''<html>ok</html>''\<rparr>"]
      apiFetchAbsolute_success_result [OF h, of "\<lparr>res_ok = True, res_status = 200, res_text = lit ''[{\"id\":\"e1\"}]''\<rparr>"]
    by (simp add: ne message_scenario_simps)
qed

text \<open>
  C10. A response with a success status and an empty body: the call returns
  \<open>null\<close>, neither the empty string nor a raw-text fallback, and it does so whatever
  \<open>JSON.parse\<close> would make of the empty text, which is never handed to it.
\<close>

theorem apiFetchAbsolute_empty_body_null:
  assumes "fetch p (api_request url options) (world m) = (Responded res, w)"
    and "res_ok res" and "res_text res = []"
  shows "fst (apiFetchAbsolute p url options m) = Inr JNull \<and>
         (\<forall>q. parse_body (p\<lparr>JSON_parse := q\<rparr>) (res_text res) = JNull)"
  using assms by (simp add: apiFetchAbsolute_responded parse_body_def)

theorem apiFetchAbsolute_empty_body_null_witness:
  "fst (apiFetchAbsolute message_scenario (lit ''https://api.example/get'') (post (lit ''{}''))
          (start [Responded \<lparr>res_ok = True, res_status = 204, res_text = []\<rparr>])) = Inr JNull \<and>
   (JNull :: int jsval) \<noteq> JStr []"
  using apiFetchAbsolute_empty_body_null [OF message_scenario_fetch_start,
      of "\<lparr>res_ok = True, res_status = 204, res_text = []\<rparr>"]
  by simp

section \<open>File encoder\<close>

text \<open>
  C9. When the file read yields the string \<open>s\<close>, the encoder returns the part of \<open>s\<close>
  after its first comma if it has one, and \<open>s\<close> itself otherwise; a read yielding
  "data:text/plain;base64,AAAA" gives "AAAA".
\<close>

theorem readFileAsBase64_after_first_comma:
  assumes "readAsDataURL p f (world m) = (Some s, w)"
  shows "(\<forall>pre suf. s = pre @ 44 # suf \<and> 44 \<notin> set pre \<longrightarrow> fst (readFileAsBase64 p f m) = Inr suf) \<and>
         (44 \<notin> set s \<longrightarrow> fst (readFileAsBase64 p f m) = Inr s) \<and>
         reader_onload (lit ''data:text/plain;base64,AAAA'') = lit ''AAAA''"
proof -
  have "reader_onload (lit ''data:text/plain;base64,AAAA'') = lit ''AAAA''"
    by (simp add: reader_onload_def lit_def slice_from_def Let_def)
  with assms show ?thesis
    by (auto simp: readFileAsBase64_def reader_onload_comma reader_onload_no_comma)
qed

theorem readFileAsBase64_after_first_comma_witness:
  "fst (readFileAsBase64 message_scenario notes_txt (scene initial_state [] [(notes_txt, notes_txt_url)]))
     = Inr (lit ''AAAA'') \<and>
   fst (readFileAsBase64 message_scenario notes_txt (scene initial_state [] [(notes_txt, lit ''AAAA'')]))
     = Inr (lit ''AAAA'')"
proof -
  have h: "readAsDataURL message_scenario notes_txt (world (scene initial_state [] [(notes_txt, u)])) =
             (Some u, world (scene initial_state [] [(notes_txt, u)]))" for u
    by (simp add: message_scenario_read)
  have split: "notes_txt_url = lit ''data:text/plain;base64'' @ 44 # lit ''AAAA''"
    "44 \<notin> set (lit ''data:text/plain;base64'')" "44 \<notin> set (lit ''AAAA'')"
    by (simp_all add: notes_txt_url_def lit_def)
  show ?thesis
    using readFileAsBase64_after_first_comma [OF h, of notes_txt_url]
      readFileAsBase64_after_first_comma [OF h, of "lit ''AAAA''"] split
    by blast
qed


section \<open>Mood log\<close>

lemma save_mood_history:
  "moodHistory (app (save_mood p m ev)) = take 14 (saved_item p ev # moodHistory (app m))"
  by (cases ev) (simp add: save_mood_def saved_item_def invoke_def addMoodEntry_def toIsoNow_def
      action_defs Let_def)

lemma take_append_take_same: "take n (xs @ take n ys) = take n (xs @ ys)"
  by (simp add: min_def)

lemma mood_session_history:
  assumes "length (moodHistory (app m)) \<le> 14"
  shows "moodHistory (app (mood_session p evs m)) =
           take 14 (rev (map (saved_item p) evs) @ moodHistory (app m))"
  using assms
proof (induction evs arbitrary: m)
  case Nil
  then show ?case by (simp add: mood_session_def)
next
  case (Cons ev evs)
  have short: "length (moodHistory (app (save_mood p m ev))) \<le> 14"
    by (simp add: save_mood_history)
  have "moodHistory (app (mood_session p (ev # evs) m)) =
          moodHistory (app (mood_session p evs (save_mood p m ev)))"
    by (simp add: mood_session_def)
  also have "\<dots> = take 14 (rev (map (saved_item p) evs) @ take 14 (saved_item p ev # moodHistory (app m)))"
    by (simp only: Cons.IH [OF short] save_mood_history)
  also have "\<dots> = take 14 (rev (map (saved_item p) evs) @ saved_item p ev # moodHistory (app m))"
    by (rule take_append_take_same)
  also have "\<dots> = take 14 (rev (map (saved_item p) (ev # evs)) @ moodHistory (app m))"
    by simp
  finally show ?case .
qed

text \<open>
  C5. After any sequence of \<open>n\<close> appends to an empty log, the log holds the
  \<open>min n 14\<close> records appended last, newest first: it never has more than 14
  records, and a fifteenth append leaves exactly 14.
\<close>

theorem mood_log_keeps_latest_14:
  assumes "moodHistory (app m) = []"
  shows "moodHistory (app (mood_session p evs m)) = take 14 (rev (map (saved_item p) evs)) \<and>
         length (moodHistory (app (mood_session p evs m))) = min (length evs) 14"
  using assms by (simp add: mood_session_history min.commute)

theorem mood_log_keeps_latest_14_witness:
  "length (moodHistory (app (mood_session message_scenario fifteen_days (start [])))) = 14 \<and>
   map item_date (moodHistory (app (mood_session message_scenario fifteen_days (start [])))) =
     map (\<lambda>d. clock (day_world d)) [15, 14, 13, 12, 11, 10, 9, 8, 7, 6, 5, 4, 3, 2]"
proof -
  have h: "moodHistory (app (start [])) = []"
    by (simp add: start_def scene_def initial_state_def)
  have c: "Date_toISOString message_scenario = clock"
    by (simp add: message_scenario_def scripted_def)
  have "item_date (saved_item message_scenario (day_world d, s, n)) = clock (day_world d)" for d s n
    by (simp add: saved_item_def c)
  then show ?thesis
    using mood_log_keeps_latest_14 [OF h, of message_scenario fifteen_days]
    by (simp add: fifteen_days_def)
qed

section \<open>Mock assistant\<close>








section \<open>Entry orchestration\<close>

lemma clearMessages_run:
  "clearMessages m = (Inr (), m\<lparr>app := (app m)\<lparr>status := [], error := []\<rparr>\<rparr>)"
  by (simp add: clearMessages_def action_defs)

lemma clearMessages_io [simp]:
  "trace (snd (clearMessages m)) = trace m" "world (snd (clearMessages m)) = world m"
  by (simp_all add: clearMessages_run)

text \<open>What catching does, for the two forms of the catch block.\<close>

lemma try_catch_report:
  "js_try_catch body
     (\<lambda>e. js_bind (set_state (\<lambda>a. a\<lparr>error := msg e\<rparr>)) (\<lambda>_. set_state (\<lambda>a. a\<lparr>status := []\<rparr>))) m =
   (case body m of
      (Inl e, m') \<Rightarrow> (Inr (), m'\<lparr>app := (app m')\<lparr>error := msg e, status := []\<rparr>\<rparr>)
    | (Inr u, m') \<Rightarrow> (Inr u, m'))"
  by (simp add: action_defs split: prod.splits sum.splits)

lemma handleLoadEntries_run:
  "handleLoadEntries p st m =
     (case handleLoadEntries_try p st (snd (clearMessages m)) of
        (Inl e, m') \<Rightarrow> (Inr (), m'\<lparr>app := (app m')\<lparr>error := exn_message e, status := [], loadingEntries := False\<rparr>\<rparr>)
      | (Inr u, m') \<Rightarrow> (Inr (), m'\<lparr>app := (app m')\<lparr>loadingEntries := False\<rparr>\<rparr>))"
  unfolding handleLoadEntries_def try_catch_report
  by (simp add: clearMessages_run js_bind_def js_try_finally_def set_state_def split: prod.splits sum.splits)

lemma handleLoadEntries_returns: "fst (handleLoadEntries p st m) = Inr ()"
  by (simp add: handleLoadEntries_run split: prod.splits sum.splits)

lemma handleCreateEntry_run:
  "handleCreateEntry p st m =
     (case handleCreateEntry_try p st (snd (clearMessages m)) of
        (Inl e, m') \<Rightarrow> (Inr (), m'\<lparr>app := (app m')\<lparr>error := exn_message e, status := []\<rparr>\<rparr>)
      | (Inr u, m') \<Rightarrow> (Inr (), m'))"
  unfolding handleCreateEntry_def try_catch_report
  by (simp add: clearMessages_run js_bind_def split: prod.splits sum.splits)

lemma handleUpload_run:
  "handleUpload p st m =
     (if \<not> canUpload st then (Inr (), snd (clearMessages m))
      else case handleUpload_try p st (snd (clearMessages m)) of
        (Inl e, m') \<Rightarrow> (Inr (), m'\<lparr>app := (app m')\<lparr>error := exn_message e, status := []\<rparr>\<rparr>)
      | (Inr u, m') \<Rightarrow> (Inr (), m'))"
  unfolding handleUpload_def try_catch_report
  by (simp add: clearMessages_run js_bind_def js_return_def split: prod.splits sum.splits)

lemma handleUpdate_run:
  "handleUpdate p st entryId m =
     (case handleUpdate_try p st entryId (snd (clearMessages m)) of
        (Inl e, m') \<Rightarrow> (Inr (), m'\<lparr>app := (app m')\<lparr>error := (if exn_message e \<noteq> [] then exn_message e else String_exn e), status := []\<rparr>\<rparr>)
      | (Inr u, m') \<Rightarrow> (Inr (), m'))"
  unfolding handleUpdate_def try_catch_report
  by (simp add: clearMessages_run js_bind_def split: prod.splits sum.splits)

lemma handleDelete_run:
  "handleDelete p st entryId m =
     (case handleDelete_try p st entryId (snd (clearMessages m)) of
        (Inl e, m') \<Rightarrow> (Inr (), m'\<lparr>app := (app m')\<lparr>error := (if exn_message e \<noteq> [] then exn_message e else String_exn e), status := []\<rparr>\<rparr>)
      | (Inr u, m') \<Rightarrow> (Inr (), m'))"
  unfolding handleDelete_def try_catch_report
  by (simp add: clearMessages_run js_bind_def split: prod.splits sum.splits)

text \<open>
  Create, update and delete: the write, then the re-list, which catches its own
  failures.
\<close>

lemma write_then_list:
  "js_bind write (\<lambda>_. handleLoadEntries p st) m =
     (case write m of
        (Inl e, m') \<Rightarrow> (Inl e, m')
      | (Inr u, m2) \<Rightarrow> (Inr (), snd (handleLoadEntries p st m2)))"
proof (cases "write m")
  case (Pair r m')
  show ?thesis
  proof (cases r)
    case (Inl e)
    with Pair show ?thesis by (simp add: js_bind_def)
  next
    case (Inr u)
    have "handleLoadEntries p st m' = (Inr (), snd (handleLoadEntries p st m'))"
      using handleLoadEntries_returns [of p st m'] by (cases "handleLoadEntries p st m'") simp
    with Pair Inr show ?thesis by (simp add: js_bind_def)
  qed
qed

lemma handleCreateEntry_final:
  "handleCreateEntry p st m =
     (case handleCreateEntry_write p st (snd (clearMessages m)) of
        (Inl e, m') \<Rightarrow> (Inr (), m'\<lparr>app := (app m')\<lparr>error := exn_message e, status := []\<rparr>\<rparr>)
      | (Inr u, m2) \<Rightarrow> (Inr (), snd (handleLoadEntries p st m2)))"
  by (simp add: handleCreateEntry_run handleCreateEntry_try_def write_then_list
      split: prod.splits sum.splits)

lemma handleUpdate_final:
  "handleUpdate p st entryId m =
     (case handleUpdate_write p st entryId (snd (clearMessages m)) of
        (Inl e, m') \<Rightarrow>
          (Inr (), m'\<lparr>app := (app m')\<lparr>error := (if exn_message e \<noteq> [] then exn_message e else String_exn e),
                                   status := []\<rparr>\<rparr>)
      | (Inr u, m2) \<Rightarrow> (Inr (), snd (handleLoadEntries p st m2)))"
  by (simp add: handleUpdate_run handleUpdate_try_def write_then_list
      split: prod.splits sum.splits)

lemma handleDelete_final:
  "handleDelete p st entryId m =
     (case handleDelete_write p st entryId (snd (clearMessages m)) of
        (Inl e, m') \<Rightarrow>
          (Inr (), m'\<lparr>app := (app m')\<lparr>error := (if exn_message e \<noteq> [] then exn_message e else String_exn e),
                                   status := []\<rparr>\<rparr>)
      | (Inr u, m2) \<Rightarrow> (Inr (), snd (handleLoadEntries p st m2)))"
  by (simp add: handleDelete_run handleDelete_try_def write_then_list
      split: prod.splits sum.splits)

text \<open>The list handler, step by step.\<close>

lemma handleLoadEntries_try_unset:
  assumes "userId st \<noteq> []" and "unset (get (ENDPOINTS p))"
  shows "handleLoadEntries_try p st m =
           (Inl (new_Error (missing (lit ''REACT_APP_GET_URL''))),
            m\<lparr>app := (app m)\<lparr>loadingEntries := True, status := lit ''Loading entries...''\<rparr>\<rparr>)"
  using assms by (simp add: handleLoadEntries_try_def action_defs requireEndpoint_unset)

lemma handleLoadEntries_try_responded:
  assumes "userId st \<noteq> []" and "get (ENDPOINTS p) = Some url" and "url \<noteq> []"
    and "fetch p (list_request p st url) (world m) = (Responded res, w)"
  shows "handleLoadEntries_try p st m =
           (if res_ok res
            then (Inr (),
                  m\<lparr>app := (app m)\<lparr>loadingEntries := True,
                         entries := entries_list p (parse_body p (res_text res)),
                         status := lit ''Entries loaded '' @ [0x2705]\<rparr>,
                     world := w, trace := trace m @ [NetworkRequest (list_request p st url)]\<rparr>)
            else (Inl (failure p res),
                  m\<lparr>app := (app m)\<lparr>loadingEntries := True, status := lit ''Loading entries...''\<rparr>,
                     world := w, trace := trace m @ [NetworkRequest (list_request p st url)]\<rparr>))"
  using assms
  by (simp add: handleLoadEntries_try_def js_bind_def js_lift_def js_throw_def js_return_def set_state_def
      requireEndpoint_unset unset_def apiFetchAbsolute_run list_request_def Let_def)


lemma handleLoadEntries_trace:
  "trace (snd (handleLoadEntries p st m)) = trace m \<or>
   (\<exists>url. trace (snd (handleLoadEntries p st m)) = trace m @ [NetworkRequest (list_request p st url)])"
proof (cases "userId st = []")
  case True
  then show ?thesis
    by (simp add: handleLoadEntries_run handleLoadEntries_try_def js_throw_def)
next
  case user: False
  show ?thesis
  proof (cases "unset (get (ENDPOINTS p))")
    case True
    with user show ?thesis
      by (simp add: handleLoadEntries_run handleLoadEntries_try_unset)
  next
    case False
    then obtain url where url: "get (ENDPOINTS p) = Some url" "url \<noteq> []"
      by (auto simp: unset_def)
    obtain out w where f: "fetch p (list_request p st url) (world m) = (out, w)"
      by (cases "fetch p (list_request p st url) (world m)")
    show ?thesis
    proof (cases out)
      case (Rejected e)
      with user url f have "trace (snd (handleLoadEntries p st m)) = trace m @ [NetworkRequest (list_request p st url)]"
        by (simp add: handleLoadEntries_run handleLoadEntries_try_def js_bind_def js_lift_def set_state_def
            requireEndpoint_unset unset_def apiFetchAbsolute_run list_request_def clearMessages_run)
      then show ?thesis by blast
    next
      case (Responded res)
      with user url f have "trace (snd (handleLoadEntries p st m)) = trace m @ [NetworkRequest (list_request p st url)]"
        by (simp add: handleLoadEntries_run handleLoadEntries_try_responded)
      then show ?thesis by blast
    qed
  qed
qed

lemma handleLoadEntries_trace_extends:
  "\<exists>rest. trace (snd (handleLoadEntries p st m)) = trace m @ rest"
  using handleLoadEntries_trace [of p st m] by auto

text \<open>The writes of create, update and delete, and the upload, step by step.\<close>

lemma handleCreateEntry_write_unset:
  assumes "userId st \<noteq> []" and "trim (text' st) \<noteq> []" and "unset (create (ENDPOINTS p))"
  shows "handleCreateEntry_write p st m =
           (Inl (new_Error (missing (lit ''REACT_APP_CREATE_URL''))),
            m\<lparr>app := (app m)\<lparr>status := lit ''Creating journal entry in Cosmos DB...''\<rparr>\<rparr>)"
  using assms by (simp add: handleCreateEntry_write_def action_defs requireEndpoint_unset toIsoNow_def)



lemma handleCreateEntry_write_sends:
  assumes "userId st \<noteq> []" and "trim (text' st) \<noteq> []"
    and "create (ENDPOINTS p) = Some url" and "url \<noteq> []"
  shows "trace (snd (handleCreateEntry_write p st m)) =
           trace m @ [NetworkRequest (create_request p st (Date_toISOString p (world m)) url)]"
proof -
  obtain out w where f: "fetch p (create_request p st (Date_toISOString p (world m)) url) (world m) = (out, w)"
    by (cases "fetch p (create_request p st (Date_toISOString p (world m)) url) (world m)")
  show ?thesis
  proof (cases out)
    case (Rejected e)
    with assms f show ?thesis
      by (simp add: handleCreateEntry_write_def js_bind_def js_lift_def set_state_def toIsoNow_def
          requireEndpoint_unset unset_def apiFetchAbsolute_run create_request_def Let_def)
  next
    case (Responded res)
    with assms f show ?thesis
      by (simp add: handleCreateEntry_write_def js_bind_def js_lift_def js_return_def set_state_def toIsoNow_def
          requireEndpoint_unset unset_def apiFetchAbsolute_run create_request_def Let_def)
  qed
qed

lemma handleUpload_try_unset:
  assumes "file' st = Some f" and "readAsDataURL p f (world m) = (Some r, w)"
    and "unset (upload (ENDPOINTS p))"
  shows "handleUpload_try p st m =
           (Inl (new_Error (missing (lit ''REACT_APP_UPLOAD_URL''))),
            m\<lparr>app := (app m)\<lparr>status := lit ''Uploading file to Blob via Logic App...''\<rparr>,
               world := w, trace := trace m @ [FileRead f]\<rparr>)"
  using assms
  by (simp add: handleUpload_try_def js_bind_def js_lift_def set_state_def readFileAsBase64_def
      requireEndpoint_unset Let_def)


lemma handleUpload_try_ok:
  assumes "file' st = Some f" and "readAsDataURL p f (world m) = (Some r, w)"
    and "upload (ENDPOINTS p) = Some url" and "url \<noteq> []"
    and "fetch p (upload_request p st f (reader_onload r) url) w = (Responded res, w')"
    and "res_ok res" and "parse_body p (res_text res) = JObj kvs"
  shows "handleUpload_try p st m =
           (Inr (),
            m\<lparr>app := (app m)\<lparr>uploadedBlobName := js_or p (own_prop kvs (lit ''blobName'')) (JStr []),
                   uploadedFileUrl := js_or p (own_prop kvs (lit ''fileUrl'')) (JStr []),
                   status := lit ''Upload complete '' @ [0x2705]\<rparr>,
               world := w',
               trace := trace m @ [FileRead f, NetworkRequest (upload_request p st f (reader_onload r) url)]\<rparr>)"
  using assms
  by (simp add: handleUpload_try_def js_bind_def js_lift_def set_state_def readFileAsBase64_def
      requireEndpoint_unset unset_def apiFetchAbsolute_run upload_request_def get_prop_def opt_prop_def Let_def)

lemma handleUpdate_write_unset:
  assumes "truthy p entryId" and "unset (update (ENDPOINTS p))"
  shows "handleUpdate_write p st entryId m =
           (Inl (new_Error (missing (lit ''REACT_APP_UPDATE_URL''))),
            m\<lparr>app := (app m)\<lparr>status := lit ''Updating entry...''\<rparr>\<rparr>)"
  using assms by (simp add: handleUpdate_write_def action_defs requireEndpoint_unset)



lemma handleDelete_write_unset:
  assumes "truthy p entryId" and "unset (del (ENDPOINTS p))"
  shows "handleDelete_write p st entryId m =
           (Inl (new_Error (missing (lit ''REACT_APP_DELETE_URL''))),
            m\<lparr>app := (app m)\<lparr>status := lit ''Deleting entry...''\<rparr>\<rparr>)"
  using assms by (simp add: handleDelete_write_def action_defs requireEndpoint_unset)



subsection \<open>The create payload\<close>

lemma create_payload_key_list:
  "map fst (create_payload p st now) =
     [lit ''userId'', lit ''text'', lit ''visibility'', lit ''uploadDate''] @
     (if truthy p (uploadedFileUrl st) then [lit ''filename'', lit ''filetype'', lit ''fileUrl''] else [])"
  by (simp add: create_payload_def)

lemma create_payload_keys:
  "fst ` set (create_payload p st now) =
     {lit ''userId'', lit ''text'', lit ''visibility'', lit ''uploadDate''} \<union>
     (if truthy p (uploadedFileUrl st) then media_keys else {})"
proof -
  have "fst ` set (create_payload p st now) = set (map fst (create_payload p st now))"
    by simp
  then show ?thesis
    unfolding create_payload_key_list by (auto simp: media_keys_def)
qed

lemma media_keys_fresh:
  "{lit ''userId'', lit ''text'', lit ''visibility'', lit ''uploadDate''} \<inter> media_keys = {}"
  by (simp add: media_keys_def lit_def)

lemma create_payload_media_values:
  assumes "truthy p (uploadedFileUrl st)"
  shows "map_of (create_payload p st now) (lit ''fileUrl'') = Some (uploadedFileUrl st)"
    and "map_of (create_payload p st now) (lit ''filename'') =
           Some (JStr (case file' st of Some f \<Rightarrow> file_name f | None \<Rightarrow> []))"
    and "map_of (create_payload p st now) (lit ''filetype'') =
           Some (JStr (case file' st of Some f \<Rightarrow> file_type f | None \<Rightarrow> []))"
  using assms by (simp_all add: create_payload_def) (simp_all add: lit_def)

lemma handleCreateEntry_sends:
  assumes "userId st \<noteq> []" and "trim (text' st) \<noteq> []"
    and "create (ENDPOINTS p) = Some url" and "url \<noteq> []"
  shows "\<exists>rest. trace (snd (handleCreateEntry p st m)) =
           trace m @ NetworkRequest (create_request p st (Date_toISOString p (world m)) url) # rest"
proof -
  have sent: "trace (snd (handleCreateEntry_write p st (snd (clearMessages m)))) =
      trace m @ [NetworkRequest (create_request p st (Date_toISOString p (world m)) url)]"
    using handleCreateEntry_write_sends [OF assms, of "snd (clearMessages m)"] by simp
  obtain r m' where w: "handleCreateEntry_write p st (snd (clearMessages m)) = (r, m')"
    by (cases "handleCreateEntry_write p st (snd (clearMessages m))")
  show ?thesis
  proof (cases r)
    case (Inl e)
    with w sent show ?thesis by (simp add: handleCreateEntry_final)
  next
    case (Inr u)
    with w sent handleLoadEntries_trace_extends [of p st m'] show ?thesis
      by (auto simp: handleCreateEntry_final)
  qed
qed

text \<open>
  The payload of a create request has the three media properties exactly when the
  stored upload URL is truthy (for a string: not empty), and none of them otherwise.
  When it has them, \<open>fileUrl\<close> is the stored URL, and \<open>filename\<close> and
  \<open>filetype\<close> are the name and type of the file selected at that moment, or empty
  strings when no file is selected. This payload, serialised, is the body of the
  request that the create operation sends.
\<close>

lemma create_payload_media_keys:
  "(truthy p (uploadedFileUrl st) \<longrightarrow>
      media_keys \<subseteq> fst ` set (create_payload p st now) \<and>
      map_of (create_payload p st now) (lit ''fileUrl'') = Some (uploadedFileUrl st) \<and>
      (\<forall>f. file' st = Some f \<longrightarrow>
         map_of (create_payload p st now) (lit ''filename'') = Some (JStr (file_name f)) \<and>
         map_of (create_payload p st now) (lit ''filetype'') = Some (JStr (file_type f))) \<and>
      (file' st = None \<longrightarrow>
         map_of (create_payload p st now) (lit ''filename'') = Some (JStr []) \<and>
         map_of (create_payload p st now) (lit ''filetype'') = Some (JStr []))) \<and>
   (\<not> truthy p (uploadedFileUrl st) \<longrightarrow> fst ` set (create_payload p st now) \<inter> media_keys = {}) \<and>
   (\<forall>u. uploadedFileUrl st = JStr u \<longrightarrow> (truthy p (uploadedFileUrl st) \<longleftrightarrow> u \<noteq> [])) \<and>
   (userId st \<noteq> [] \<and> trim (text' st) \<noteq> [] \<and> create (ENDPOINTS p) = Some url \<and> url \<noteq> [] \<longrightarrow>
      (\<exists>rest. trace (snd (handleCreateEntry p st m)) =
         trace m @ NetworkRequest (create_request p st (Date_toISOString p (world m)) url) # rest))"
proof -
  have "fst ` set (create_payload p st now) \<inter> media_keys = {}" if "\<not> truthy p (uploadedFileUrl st)"
    using that media_keys_fresh by (simp add: create_payload_keys)
  moreover have "media_keys \<subseteq> fst ` set (create_payload p st now)" if "truthy p (uploadedFileUrl st)"
    using that by (auto simp: create_payload_keys)
  ultimately show ?thesis
    using create_payload_media_values [of p st now] handleCreateEntry_sends [of st p url m]
    by auto
qed

lemma create_payload_media_keys_scenario:
  "media_keys \<subseteq> fst ` set (create_payload message_scenario attached_state (lit ''2026-01-01T00:00:00.000Z'')) \<and>
   map_of (create_payload message_scenario attached_state (lit ''2026-01-01T00:00:00.000Z'')) (lit ''fileUrl'') =
     Some (JStr (lit ''https://blob.example/u12345/notes.txt'')) \<and>
   map_of (create_payload message_scenario attached_state (lit ''2026-01-01T00:00:00.000Z'')) (lit ''filename'') =
     Some (JStr (lit ''notes.txt'')) \<and>
   map_of (create_payload message_scenario (attached_state\<lparr>file' := None\<rparr>) (lit ''2026-01-01T00:00:00.000Z''))
       (lit ''filename'') = Some (JStr []) \<and>
   fst ` set (create_payload message_scenario journal_state (lit ''2026-01-01T00:00:00.000Z'')) \<inter> media_keys = {} \<and>
   (\<exists>rest. trace (snd (handleCreateEntry message_scenario attached_state (scene attached_state [] []))) =
      NetworkRequest (create_request message_scenario attached_state (lit ''2026-01-01T00:00:00.000Z'')
        (lit ''https://api.example/create'')) # rest)"
proof -
  have a: "truthy message_scenario (uploadedFileUrl attached_state)"
    "uploadedFileUrl attached_state = JStr (lit ''https://blob.example/u12345/notes.txt'')"
    "file' attached_state = Some notes_txt" "file_name notes_txt = lit ''notes.txt''"
    by (simp_all add: attached_state_def notes_txt_def lit_def)
  have b: "truthy message_scenario (uploadedFileUrl (attached_state\<lparr>file' := None\<rparr>))"
    "file' (attached_state\<lparr>file' := None\<rparr>) = None"
    by (simp_all add: attached_state_def lit_def)
  have j: "\<not> truthy message_scenario (uploadedFileUrl journal_state)"
    by (simp add: journal_state_def initial_state_def)
  have v: "userId attached_state \<noteq> []" "trim (text' attached_state) \<noteq> []"
    "create (ENDPOINTS message_scenario) = Some (lit ''https://api.example/create'')"
    "lit ''https://api.example/create'' \<noteq> []"
    by (simp_all add: attached_state_def journal_state_def initial_state_def trim_def isWhiteSpace_def
        message_scenario_simps all_endpoints_def lit_def)
  have c: "Date_toISOString message_scenario (world (scene st rs fs)) = lit ''2026-01-01T00:00:00.000Z''"
    "trace (scene st rs fs) = []" for st rs fs
    by (simp_all add: message_scenario_def scripted_def scene_def)
  show ?thesis
    using create_payload_media_keys [of message_scenario attached_state "lit ''2026-01-01T00:00:00.000Z''"
        "lit ''https://api.example/create''" "scene attached_state [] []"]
      create_payload_media_keys [of message_scenario "attached_state\<lparr>file' := None\<rparr>"
        "lit ''2026-01-01T00:00:00.000Z''"]
      create_payload_media_keys [of message_scenario journal_state "lit ''2026-01-01T00:00:00.000Z''"]
      a b j v
    by (simp add: c)
qed

text \<open>A session: a file is selected and uploaded, the selection changed, a text typed.\<close>

lemma upload_then_app:
  "uploadedFileUrl (app (upload_then sel)) = JStr (lit ''https://blob.example/u12345/notes.txt'')"
  "file' (app (upload_then sel)) = sel"
  "userId (app (upload_then sel)) = lit ''u12345''"
  "text' (app (upload_then sel)) = lit ''Felt okay today''"
  "visibility (app (upload_then sel)) = lit ''private''"
  "Date_toISOString message_scenario (world (upload_then sel)) = lit ''2026-01-01T00:00:00.000Z''"
proof -
  define m1 :: "(int, scripted_world) machine"
    where "m1 = snd (onFileChange (Some notes_txt)
      (scene initial_state [Responded upload_reply] [(notes_txt, notes_txt_url)]))"
  have m1: "app m1 = picked_state" "trace m1 = []"
    "world m1 = world (scene initial_state [Responded upload_reply] [(notes_txt, notes_txt_url)])"
    by (simp_all add: m1_def onFileChange_def set_state_def picked_state_def scene_def)
  have kv: "parse_body message_scenario (res_text upload_reply) =
      JObj [(lit ''blobName'', JStr (lit ''u12345/notes.txt'')),
            (lit ''fileUrl'', JStr (lit ''https://blob.example/u12345/notes.txt''))]"
    by (simp add: parse_body_def message_scenario_simps) (simp add: upload_reply_def lit_def)
  have ep: "upload (ENDPOINTS message_scenario) = Some (lit ''https://api.example/upload'')"
    "lit ''https://api.example/upload'' \<noteq> []"
    by (simp_all add: message_scenario_simps all_endpoints_def lit_def)
  have ok: "res_ok upload_reply" by (simp add: upload_reply_def)
  have rd: "readAsDataURL message_scenario notes_txt (world (snd (clearMessages m1))) =
      (Some notes_txt_url, world (scene initial_state [Responded upload_reply] [(notes_txt, notes_txt_url)]))"
    by (simp add: m1 message_scenario_read)
  have "handleUpload_try message_scenario picked_state (snd (clearMessages m1)) =
      (Inr (),
       (snd (clearMessages m1))\<lparr>app := (app (snd (clearMessages m1)))
           \<lparr>uploadedBlobName := js_or message_scenario
               (own_prop [(lit ''blobName'', JStr (lit ''u12345/notes.txt'')),
                          (lit ''fileUrl'', JStr (lit ''https://blob.example/u12345/notes.txt''))] (lit ''blobName''))
               (JStr []),
            uploadedFileUrl := js_or message_scenario
               (own_prop [(lit ''blobName'', JStr (lit ''u12345/notes.txt'')),
                          (lit ''fileUrl'', JStr (lit ''https://blob.example/u12345/notes.txt''))] (lit ''fileUrl''))
               (JStr []),
            status := lit ''Upload complete '' @ [0x2705]\<rparr>,
          world := world (scene initial_state [] [(notes_txt, notes_txt_url)]),
          trace := trace (snd (clearMessages m1)) @
            [FileRead notes_txt,
             NetworkRequest (upload_request message_scenario picked_state notes_txt (reader_onload notes_txt_url)
               (lit ''https://api.example/upload''))]\<rparr>)"
    by (rule handleUpload_try_ok [OF scenario_states(2) rd ep _ ok kv]) (rule message_scenario_fetch)
  note run = this
  then have w: "world (snd (handleUpload message_scenario picked_state m1)) =
      world (scene initial_state [] [(notes_txt, notes_txt_url)])"
    using scenario_states(1) by (simp add: handleUpload_run)
  note run
  moreover have "own_prop [(lit ''blobName'', JStr (lit ''u12345/notes.txt'')),
        (lit ''fileUrl'', JStr (lit ''https://blob.example/u12345/notes.txt''))] (lit ''fileUrl'') =
      (JStr (lit ''https://blob.example/u12345/notes.txt'') :: int jsval)"
    by (simp add: own_prop_def lit_def)
  moreover have "lit ''https://blob.example/u12345/notes.txt'' \<noteq> []"
    by (simp add: lit_def)
  ultimately have up: "app (snd (handleUpload message_scenario picked_state m1)) =
      (app (snd (clearMessages m1)))
        \<lparr>uploadedBlobName := js_or message_scenario
               (own_prop [(lit ''blobName'', JStr (lit ''u12345/notes.txt'')),
                          (lit ''fileUrl'', JStr (lit ''https://blob.example/u12345/notes.txt''))] (lit ''blobName''))
               (JStr []),
         uploadedFileUrl := JStr (lit ''https://blob.example/u12345/notes.txt''),
         status := lit ''Upload complete '' @ [0x2705]\<rparr>"
    using scenario_states(1) by (simp add: handleUpload_run js_or_def)
  have ut: "upload_then sel =
      snd (onTextChange (lit ''Felt okay today'')
        (snd (onFileChange sel (snd (handleUpload message_scenario picked_state m1)))))"
    by (simp add: upload_then_def invoke_def m1_def [symmetric] m1)
  have "world (upload_then sel) = world (snd (handleUpload message_scenario picked_state m1))"
    by (simp add: ut onTextChange_def onFileChange_def set_state_def)
  with w show "Date_toISOString message_scenario (world (upload_then sel)) = lit ''2026-01-01T00:00:00.000Z''"
    by (simp add: message_scenario_def scripted_def scene_def)
  from ut have "app (upload_then sel) =
      (app (snd (handleUpload message_scenario picked_state m1)))\<lparr>file' := sel, text' := lit ''Felt okay today''\<rparr>"
    by (simp add: onTextChange_def onFileChange_def set_state_def)
  note a = this
  show "uploadedFileUrl (app (upload_then sel)) = JStr (lit ''https://blob.example/u12345/notes.txt'')"
    "file' (app (upload_then sel)) = sel"
    "userId (app (upload_then sel)) = lit ''u12345''"
    "text' (app (upload_then sel)) = lit ''Felt okay today''"
    "visibility (app (upload_then sel)) = lit ''private''"
    by (simp_all add: a up clearMessages_run m1) (simp_all add: picked_state_def initial_state_def)
qed

text \<open>
  C3. A media reference that is partial, or that names a file never uploaded, is sent.
  After the file notes.txt has been selected and uploaded, the selection cleared and
  a text typed, the stored upload URL is still there and no file is selected: the
  payload of the create request carries the URL of the upload with an empty name and
  an empty type, and the create operation sends it. After photo.png has been selected
  in place of notes.txt, which is not uploaded, the payload carries the name and type
  of photo.png with the URL of notes.txt.
\<close>

theorem create_sends_partial_media_reference:
  "uploadedFileUrl (app (upload_then None)) = JStr (lit ''https://blob.example/u12345/notes.txt'') \<and>
   file' (app (upload_then None)) = None \<and>
   create_payload message_scenario (app (upload_then None)) (lit ''2026-01-01T00:00:00.000Z'') =
     [(lit ''userId'', JStr (lit ''u12345'')),
      (lit ''text'', JStr (lit ''Felt okay today'')),
      (lit ''visibility'', JStr (lit ''private'')),
      (lit ''uploadDate'', JStr (lit ''2026-01-01T00:00:00.000Z'')),
      (lit ''filename'', JStr []),
      (lit ''filetype'', JStr []),
      (lit ''fileUrl'', JStr (lit ''https://blob.example/u12345/notes.txt''))] \<and>
   (\<exists>rest. trace (snd (invoke (handleCreateEntry message_scenario) (upload_then None))) =
      trace (upload_then None) @
      NetworkRequest (create_request message_scenario (app (upload_then None))
        (lit ''2026-01-01T00:00:00.000Z'') (lit ''https://api.example/create'')) # rest) \<and>
   create_payload message_scenario (app (upload_then (Some photo_png))) (lit ''2026-01-01T00:00:00.000Z'') =
     [(lit ''userId'', JStr (lit ''u12345'')),
      (lit ''text'', JStr (lit ''Felt okay today'')),
      (lit ''visibility'', JStr (lit ''private'')),
      (lit ''uploadDate'', JStr (lit ''2026-01-01T00:00:00.000Z'')),
      (lit ''filename'', JStr (lit ''photo.png'')),
      (lit ''filetype'', JStr (lit ''image/png'')),
      (lit ''fileUrl'', JStr (lit ''https://blob.example/u12345/notes.txt''))]"
proof -
  have t: "trim (lit ''Felt okay today'') = lit ''Felt okay today''"
    by (simp add: trim_def isWhiteSpace_def lit_def)
  have n: "lit ''https://blob.example/u12345/notes.txt'' \<noteq> []" "lit ''u12345'' \<noteq> []"
    "lit ''Felt okay today'' \<noteq> []"
    by (simp_all add: lit_def)
  have "\<exists>rest. trace (snd (handleCreateEntry message_scenario (app (upload_then None)) (upload_then None))) =
      trace (upload_then None) @
      NetworkRequest (create_request message_scenario (app (upload_then None))
        (Date_toISOString message_scenario (world (upload_then None))) (lit ''https://api.example/create'')) # rest"
    by (rule handleCreateEntry_sends [OF _ _ scenario_endpoints(1,2)]) (simp_all add: upload_then_app t n)
  then have sent: "\<exists>rest. trace (snd (invoke (handleCreateEntry message_scenario) (upload_then None))) =
      trace (upload_then None) @
      NetworkRequest (create_request message_scenario (app (upload_then None))
        (lit ''2026-01-01T00:00:00.000Z'') (lit ''https://api.example/create'')) # rest"
    by (simp add: invoke_def upload_then_app(6))
  have "create_payload message_scenario (app (upload_then None)) (lit ''2026-01-01T00:00:00.000Z'') =
     [(lit ''userId'', JStr (lit ''u12345'')),
      (lit ''text'', JStr (lit ''Felt okay today'')),
      (lit ''visibility'', JStr (lit ''private'')),
      (lit ''uploadDate'', JStr (lit ''2026-01-01T00:00:00.000Z'')),
      (lit ''filename'', JStr []),
      (lit ''filetype'', JStr []),
      (lit ''fileUrl'', JStr (lit ''https://blob.example/u12345/notes.txt''))]"
    by (simp add: create_payload_def upload_then_app t n)
  moreover have "create_payload message_scenario (app (upload_then (Some photo_png))) (lit ''2026-01-01T00:00:00.000Z'') =
     [(lit ''userId'', JStr (lit ''u12345'')),
      (lit ''text'', JStr (lit ''Felt okay today'')),
      (lit ''visibility'', JStr (lit ''private'')),
      (lit ''uploadDate'', JStr (lit ''2026-01-01T00:00:00.000Z'')),
      (lit ''filename'', JStr (lit ''photo.png'')),
      (lit ''filetype'', JStr (lit ''image/png'')),
      (lit ''fileUrl'', JStr (lit ''https://blob.example/u12345/notes.txt''))]"
    by (simp add: create_payload_def upload_then_app t n photo_png_def)
  ultimately show ?thesis
    using sent by (simp add: upload_then_app)
qed

subsection \<open>The entry list\<close>

text \<open>
  What a successful list request stores: the response itself when it is an array; the
  \<open>entries\<close> property of an object when that is an array; the \<open>value\<close> property of
  an object whose \<open>entries\<close> property is falsy or missing, when that is an array;
  and the empty array for a response that is not an array and has neither a truthy
  \<open>entries\<close> nor a truthy \<open>value\<close> property. So the three shapes \<open>a\<close>,
  \<open>{entries: a}\<close> and \<open>{value: a}\<close> of an array \<open>a\<close> are all stored as \<open>a\<close>.
\<close>

lemma handleLoadEntries_stores_list:
  assumes "userId st \<noteq> []" and "get (ENDPOINTS p) = Some url" and "url \<noteq> []"
    and "fetch p (list_request p st url) (world m) = (Responded res, w)" and "res_ok res"
    and "parse_body p (res_text res) = data"
  shows "(data = JArr a \<longrightarrow> entries (app (snd (handleLoadEntries p st m))) = JArr a) \<and>
         (\<forall>kvs. data = JObj kvs \<and> own_prop kvs (lit ''entries'') = JArr a \<longrightarrow>
            entries (app (snd (handleLoadEntries p st m))) = JArr a) \<and>
         (\<forall>kvs. data = JObj kvs \<and> \<not> truthy p (own_prop kvs (lit ''entries'')) \<and>
              own_prop kvs (lit ''value'') = JArr a \<longrightarrow>
            entries (app (snd (handleLoadEntries p st m))) = JArr a) \<and>
         ((\<forall>b. data \<noteq> JArr b) \<and> \<not> truthy p (opt_prop data (lit ''entries'')) \<and>
              \<not> truthy p (opt_prop data (lit ''value'')) \<longrightarrow>
            entries (app (snd (handleLoadEntries p st m))) = JArr [])"
proof -
  have "world (snd (clearMessages m)) = world m" by simp
  with assms have "entries (app (snd (handleLoadEntries p st m))) = entries_list p data"
    by (simp add: handleLoadEntries_run handleLoadEntries_try_responded)
  moreover have "entries_list p (JArr a) = JArr a"
    by (simp add: entries_list_def)
  moreover have "entries_list p (JObj kvs) = JArr a" if "own_prop kvs (lit ''entries'') = JArr a" for kvs
    using that by (simp add: entries_list_def opt_prop_def js_or_def)
  moreover have "entries_list p (JObj kvs) = JArr a"
    if "\<not> truthy p (own_prop kvs (lit ''entries''))" "own_prop kvs (lit ''value'') = JArr a" for kvs
    using that by (simp add: entries_list_def opt_prop_def js_or_def)
  moreover have "entries_list p data = JArr []"
    if "\<forall>b. data \<noteq> JArr b" "\<not> truthy p (opt_prop data (lit ''entries''))"
      "\<not> truthy p (opt_prop data (lit ''value''))"
    using that by (cases data) (simp_all add: entries_list_def js_or_def)
  ultimately show ?thesis by auto
qed

lemma handleLoadEntries_three_shapes:
  \<open>entries (app (snd (handleLoadEntries message_scenario initial_state
      (start [Responded \<lparr>res_ok = True, res_status = 200, res_text = lit ''[{"id":"e1"}]''\<rparr>])))) =
     JArr [JObj [(lit ''id'', JStr (lit ''e1''))]] \<and>
   entries (app (snd (handleLoadEntries message_scenario initial_state
      (start [Responded \<lparr>res_ok = True, res_status = 200, res_text = lit ''{"entries":[{"id":"e1"}]}''\<rparr>])))) =
     JArr [JObj [(lit ''id'', JStr (lit ''e1''))]] \<and>
   entries (app (snd (handleLoadEntries message_scenario initial_state
      (start [Responded \<lparr>res_ok = True, res_status = 200, res_text = lit ''{"value":[{"id":"e1"}]}''\<rparr>])))) =
     JArr [JObj [(lit ''id'', JStr (lit ''e1''))]] \<and>
   entries (app (snd (handleLoadEntries message_scenario initial_state
      (start [Responded \<lparr>res_ok = True, res_status = 200, res_text = lit ''{"count":0}''\<rparr>])))) =
     JArr []\<close>
proof -
  note run = handleLoadEntries_stores_list [OF initial_userId get_endpoint message_scenario_fetch_start _ refl,
      of "\<lparr>res_ok = True, res_status = 200, res_text = t\<rparr>" for t, simplified]
  show ?thesis
    using run [of "lit ''[{\"id\":\"e1\"}]''" "[JObj [(lit ''id'', JStr (lit ''e1''))]]"]
      run [of "lit ''{\"entries\":[{\"id\":\"e1\"}]}''" "[JObj [(lit ''id'', JStr (lit ''e1''))]]"]
      run [of "lit ''{\"value\":[{\"id\":\"e1\"}]}''" "[JObj [(lit ''id'', JStr (lit ''e1''))]]"]
      run [of "lit ''{\"count\":0}''" "[]"]
    by (simp add: parse_body_scenario own_prop_scenario opt_prop_def)
qed

text \<open>
  C4. The handler does not check that the \<open>entries\<close> or \<open>value\<close> property it takes
  is an array. The response {"entries":"x"} has none of the three shapes, so the empty
  sequence should be stored; what the handler stores is the string "x".
\<close>

theorem handleLoadEntries_stores_non_array:
  \<open>JSON_parse message_scenario (lit ''{"entries":"x"}'') = Some (JObj [(lit ''entries'', JStr (lit ''x''))]) \<and>
   entries (app (snd (handleLoadEntries message_scenario initial_state
      (start [Responded \<lparr>res_ok = True, res_status = 200, res_text = lit ''{"entries":"x"}''\<rparr>])))) =
     JStr (lit ''x'') \<and>
   (JStr (lit ''x'') :: int jsval) \<noteq> JArr []\<close>
proof -
  have "world (snd (clearMessages m)) = world m" for m :: "(int, scripted_world) machine"
    by simp
  then have "entries (app (snd (handleLoadEntries message_scenario initial_state
      (start [Responded \<lparr>res_ok = True, res_status = 200, res_text = lit ''{\"entries\":\"x\"}''\<rparr>])))) =
     entries_list message_scenario (parse_body message_scenario (lit ''{\"entries\":\"x\"}''))"
    using handleLoadEntries_try_responded [OF initial_userId get_endpoint, of
        "snd (clearMessages (start [Responded \<lparr>res_ok = True, res_status = 200, res_text = lit ''{\"entries\":\"x\"}''\<rparr>]))"
        "\<lparr>res_ok = True, res_status = 200, res_text = lit ''{\"entries\":\"x\"}''\<rparr>" "world (start [])"]
    by (simp add: handleLoadEntries_run message_scenario_fetch_start)
  moreover have "entries_list message_scenario (JObj [(lit ''entries'', JStr (lit ''x''))]) = JStr (lit ''x'')"
    by (simp add: entries_list_def opt_prop_def own_prop_scenario js_or_def) (simp add: lit_def)
  ultimately show ?thesis
    by (simp add: parse_body_scenario message_scenario_simps)
qed

subsection \<open>Failures are caught\<close>






subsection \<open>Unset endpoints\<close>

text \<open>
  Create, list, update and delete look at their endpoint before any input or output:
  when it is unset (and the operation's own checks pass), the error string is "Missing
  <variable> URL in .env", the status string is cleared, and the trace and the world
  are those the operation started with.
\<close>

lemma endpoint_checked_before_io:
  "(userId st \<noteq> [] \<and> trim (text' st) \<noteq> [] \<and> unset (create (ENDPOINTS p)) \<longrightarrow>
      error (app (snd (handleCreateEntry p st m))) = missing (lit ''REACT_APP_CREATE_URL'') \<and>
      status (app (snd (handleCreateEntry p st m))) = [] \<and>
      trace (snd (handleCreateEntry p st m)) = trace m \<and> world (snd (handleCreateEntry p st m)) = world m) \<and>
   (userId st \<noteq> [] \<and> unset (get (ENDPOINTS p)) \<longrightarrow>
      error (app (snd (handleLoadEntries p st m))) = missing (lit ''REACT_APP_GET_URL'') \<and>
      status (app (snd (handleLoadEntries p st m))) = [] \<and>
      trace (snd (handleLoadEntries p st m)) = trace m \<and> world (snd (handleLoadEntries p st m)) = world m) \<and>
   (truthy p entryId \<and> unset (update (ENDPOINTS p)) \<longrightarrow>
      error (app (snd (handleUpdate p st entryId m))) = missing (lit ''REACT_APP_UPDATE_URL'') \<and>
      status (app (snd (handleUpdate p st entryId m))) = [] \<and>
      trace (snd (handleUpdate p st entryId m)) = trace m \<and> world (snd (handleUpdate p st entryId m)) = world m) \<and>
   (truthy p entryId \<and> unset (del (ENDPOINTS p)) \<longrightarrow>
      error (app (snd (handleDelete p st entryId m))) = missing (lit ''REACT_APP_DELETE_URL'') \<and>
      status (app (snd (handleDelete p st entryId m))) = [] \<and>
      trace (snd (handleDelete p st entryId m)) = trace m \<and> world (snd (handleDelete p st entryId m)) = world m)"
proof -
  have ne: "missing name \<noteq> []" for name
    by (simp add: missing_def lit_def)
  have cr: "error (app (snd (handleCreateEntry p st m))) = missing (lit ''REACT_APP_CREATE_URL'') \<and>
      status (app (snd (handleCreateEntry p st m))) = [] \<and>
      trace (snd (handleCreateEntry p st m)) = trace m \<and> world (snd (handleCreateEntry p st m)) = world m"
    if "userId st \<noteq> []" "trim (text' st) \<noteq> []" "unset (create (ENDPOINTS p))"
    using that by (simp add: handleCreateEntry_final handleCreateEntry_write_unset new_Error_def)
  have li: "error (app (snd (handleLoadEntries p st m))) = missing (lit ''REACT_APP_GET_URL'') \<and>
      status (app (snd (handleLoadEntries p st m))) = [] \<and>
      trace (snd (handleLoadEntries p st m)) = trace m \<and> world (snd (handleLoadEntries p st m)) = world m"
    if "userId st \<noteq> []" "unset (get (ENDPOINTS p))"
    using that by (simp add: handleLoadEntries_run handleLoadEntries_try_unset new_Error_def)
  have ud: "error (app (snd (handleUpdate p st entryId m))) = missing (lit ''REACT_APP_UPDATE_URL'') \<and>
      status (app (snd (handleUpdate p st entryId m))) = [] \<and>
      trace (snd (handleUpdate p st entryId m)) = trace m \<and> world (snd (handleUpdate p st entryId m)) = world m"
    if "truthy p entryId" "unset (update (ENDPOINTS p))"
    using that by (simp add: handleUpdate_final handleUpdate_write_unset new_Error_def ne)
  have de: "error (app (snd (handleDelete p st entryId m))) = missing (lit ''REACT_APP_DELETE_URL'') \<and>
      status (app (snd (handleDelete p st entryId m))) = [] \<and>
      trace (snd (handleDelete p st entryId m)) = trace m \<and> world (snd (handleDelete p st entryId m)) = world m"
    if "truthy p entryId" "unset (del (ENDPOINTS p))"
    using that by (simp add: handleDelete_final handleDelete_write_unset new_Error_def ne)
  from cr li ud de show ?thesis by blast
qed

text \<open>
  Upload reads the selected file first and looks at its endpoint afterwards, whatever
  the platform: with the upload URL unset, the file has been read when the error is
  reported, and the error is the configuration error only if the read succeeded.
\<close>

lemma handleUpload_reads_first:
  assumes "canUpload st" and "file' st = Some f" and "unset (upload (ENDPOINTS p))"
  shows "trace (snd (handleUpload p st m)) = trace m @ [FileRead f]"
    and "error (app (snd (handleUpload p st m))) =
           (if fst (readAsDataURL p f (world m)) = None then lit ''Failed to read file''
            else missing (lit ''REACT_APP_UPLOAD_URL''))"
proof -
  obtain r w where rd: "readAsDataURL p f (world m) = (r, w)"
    by (cases "readAsDataURL p f (world m)")
  show "trace (snd (handleUpload p st m)) = trace m @ [FileRead f]"
    using assms rd
    by (cases r)
       (simp_all add: handleUpload_run handleUpload_try_def js_bind_def js_lift_def set_state_def
          readFileAsBase64_def requireEndpoint_unset Let_def clearMessages_run)
  show "error (app (snd (handleUpload p st m))) =
           (if fst (readAsDataURL p f (world m)) = None then lit ''Failed to read file''
            else missing (lit ''REACT_APP_UPLOAD_URL''))"
    using assms rd
    by (cases r)
       (simp_all add: handleUpload_run handleUpload_try_def js_bind_def js_lift_def set_state_def
          readFileAsBase64_def requireEndpoint_unset Let_def clearMessages_run new_Error_def)
qed

text \<open>
  C8. With the upload URL unset, a user id present and the file notes.txt selected,
  the upload operation has read the file when it reports "Missing REACT_APP_UPLOAD_URL
  URL in .env": the trace of the operation is the file read. When that read fails,
  the operation reports "Failed to read file" and no configuration error at all. The
  file is read before the endpoint is looked at, where the claim has the
  configuration error raised before any file read.
\<close>

theorem handleUpload_reads_before_endpoint_check:
  "upload (ENDPOINTS unconfigured) = None \<and>
   userId picked_state = lit ''u12345'' \<and>
   file' picked_state = Some notes_txt \<and>
   trace (scene picked_state [] [(notes_txt, notes_txt_url)]) = [] \<and>
   trace (snd (handleUpload unconfigured picked_state
      (scene picked_state [] [(notes_txt, notes_txt_url)]))) = [FileRead notes_txt] \<and>
   error (app (snd (handleUpload unconfigured picked_state
      (scene picked_state [] [(notes_txt, notes_txt_url)])))) = lit ''Missing REACT_APP_UPLOAD_URL URL in .env'' \<and>
   trace (snd (handleUpload unconfigured picked_state (scene picked_state [] []))) = [FileRead notes_txt] \<and>
   error (app (snd (handleUpload unconfigured picked_state (scene picked_state [] [])))) =
     lit ''Failed to read file''"
proof -
  have s: "canUpload picked_state" "file' picked_state = Some notes_txt"
    "userId picked_state = lit ''u12345''"
    by (simp_all add: canUpload_def picked_state_def initial_state_def lit_def)
  have u: "unset (upload (ENDPOINTS unconfigured))" "upload (ENDPOINTS unconfigured) = None"
    by (simp_all add: unconfigured_simps unset_def)
  have m: "missing (lit ''REACT_APP_UPLOAD_URL'') = lit ''Missing REACT_APP_UPLOAD_URL URL in .env''"
    by (simp add: missing_def lit_def)
  have 1: "trace (snd (handleUpload unconfigured picked_state
        (scene picked_state [] [(notes_txt, notes_txt_url)]))) = [FileRead notes_txt]"
    "trace (snd (handleUpload unconfigured picked_state (scene picked_state [] []))) = [FileRead notes_txt]"
    by (simp_all add: handleUpload_reads_first(1) [OF s(1,2) u(1)] scene_simps)
  have 2: "error (app (snd (handleUpload unconfigured picked_state
        (scene picked_state [] [(notes_txt, notes_txt_url)])))) = lit ''Missing REACT_APP_UPLOAD_URL URL in .env''"
    by (simp add: handleUpload_reads_first(2) [OF s(1,2) u(1)] unconfigured_simps m)
  have 3: "error (app (snd (handleUpload unconfigured picked_state (scene picked_state [] [])))) =
      lit ''Failed to read file''"
    by (simp add: handleUpload_reads_first(2) [OF s(1,2) u(1)] unconfigured_simps)
  from s u 1 2 3 show ?thesis
    by (simp add: scene_simps)
qed


end
